theory Spec2Isabelle
  imports Main
begin

section \<open>Data model\<close>

text \<open>
  The types of \<^verbatim>\<open>chrome.executables.ts\<close>, \<^verbatim>\<open>chrome.ts\<close> and \<^verbatim>\<open>types.ts\<close>. A JavaScript
  number that holds a port or a process id is an \<open>int\<close>; an optional field is an
  \<open>option\<close>.
\<close>

datatype browser_kind = Brave | Canary | Chromium | Chrome | Custom | Edge

record browser_executable =
  kind :: browser_kind
  path :: string

record resolved_browser_config =
  executablePath :: "string option"
  headless :: bool
  noSandbox :: bool
  enabled :: "bool option"
  controlPort :: "int option"

record resolved_browser_profile =
  name :: string
  cdpPort :: int
  cdpUrl :: string
  cdpIsLoopback :: bool
  color :: string

text \<open>
  \<^verbatim>\<open>RunningChrome\<close>. Its port field is \<^verbatim>\<open>cdpPort\<close> in the source; the record field is
  named \<open>cdpPort_rc\<close> because the profile record already has a field \<open>cdpPort\<close>.
  \<open>proc\<close> is the handle of the child process: the number of the spawn that made it.
\<close>

record running_chrome =
  pid :: int
  exe :: browser_executable
  userDataDir :: string
  cdpPort_rc :: int
  startedAt :: nat
  proc :: nat

text \<open>\<^verbatim>\<open>NodeJS.Platform\<close>, the type of \<^verbatim>\<open>process.platform\<close>.\<close>

datatype platform =
  Aix | Android | Darwin | FreeBSD | Haiku | Linux | OpenBSD | SunOS | Win32 | Cygwin | NetBSD

text \<open>
  Every \<^verbatim>\<open>throw new Error(...)\<close> of the source is a constructor; \<open>errorMessage\<close> below gives
  the message text. Three more constructors are the failures of the calls that
  \<^verbatim>\<open>launchClawdChrome\<close> makes unguarded, each with the message Node gives it:
  \<^item> \<open>FsError\<close>: \<^verbatim>\<open>fs.mkdirSync\<close> throws, and the launch throws with it;
  \<^item> \<open>SpawnError\<close>: \<^verbatim>\<open>spawn\<close> itself throws, and the launch throws with it;
  \<^item> \<open>UncaughtChildError\<close>: the spawn fails at run time (the file is missing or cannot be
    executed, no process can be made). Node then returns a child without a process and
    emits \<^verbatim>\<open>'error'\<close> on it at the next tick. The source puts no listener for \<^verbatim>\<open>'error'\<close> on
    the child and no handler for uncaught exceptions on the process, so this is not an
    exception of the launch: the Node process itself ends there, and no caller runs on.
\<close>

datatype error =
  ProfileIsRemote string
  | NoSupportedBrowser
  | ExecutablePathNotFound string
  | CdpStartFailed int string
  | BrowserNotStarted
  | FsError string
  | SpawnError string
  | UncaughtChildError string

text \<open>
  What a \<^verbatim>\<open>spawn\<close> comes to: a child process was started; the spawn failed at run time and
  the child will emit \<^verbatim>\<open>'error'\<close>; or \<^verbatim>\<open>spawn\<close> threw.
\<close>

datatype spawn_outcome = Started | EmitsError string | Throws string

datatype signal = SIGTERM | SIGKILL

text \<open>A parsed JSON value (what \<^verbatim>\<open>JSON.parse\<close> returns).\<close>

datatype json =
  JNull | JBool bool | JNum int | JStr string | JArr "json list" | JObj "(string \<times> json) list"

text \<open>
  What a \<^verbatim>\<open>fetch\<close> of \<^verbatim>\<open>/json/version\<close> can come to. The body is typed as the source
  types it (\<^verbatim>\<open>as ChromeVersion\<close>): a body that does not parse (\<^verbatim>\<open>res.json()\<close> throws), a
  parsed value that is falsy or not an object, or an object with its optional fields.
\<close>

record chrome_version =
  webSocketDebuggerUrl :: "string option"
  Browser :: "string option"
  User_Agent :: "string option"

datatype version_body = BodyUnparsable | BodyNotObject | BodyObject chrome_version

datatype http_reply = NetworkError | Response bool version_body

section \<open>The world outside the program\<close>

text \<open>
  Every call the code makes to the operating system, the network or the console is
  recorded, in order, in the trace of the world.
\<close>

datatype event =
  FsExists string
  | FsMkdir string
  | ExecFile string "string list"
  | Spawn nat string "string list"
  | Kill nat signal
  | HttpGet string
  | WsOpen string
  | ConsoleLog string

text \<open>
  The environment is what the program cannot decide: the facts of the Node process, the
  library functions and the helpers of \<^verbatim>\<open>cdp.js\<close> and \<^verbatim>\<open>cdp.helpers.js\<close> (which are not
  among the source files), and the answers of the outside world as functions of the time
  of the call (milliseconds):
  \<^item> \<open>execFileSync cmd args\<close>: the output of the command, \<open>None\<close> when it throws;
  \<^item> \<open>mkdirError dir\<close>: the message of the error that creating \<open>dir\<close> throws, \<open>None\<close> when
    the directory can be created (or is there already);
  \<^item> \<open>spawnResult cmd t\<close>: what spawning \<open>cmd\<close> at time \<open>t\<close> comes to;
  \<^item> \<open>fetch url t\<close>: the reply to a GET issued at time \<open>t\<close> and the time it takes;
  \<^item> \<open>wsConnect url t\<close>: whether a WebSocket opened at time \<open>t\<close> completes its handshake
    (otherwise it errors), and the time that takes;
  \<^item> \<open>procPid h\<close>: \<^verbatim>\<open>proc.pid\<close> of child \<open>h\<close> (undefined when the spawn failed);
  \<^item> \<open>procExitCode h t\<close>: \<^verbatim>\<open>proc.exitCode\<close> of child \<open>h\<close> read at time \<open>t\<close> (null while it
    runs and when a signal ended it);
  \<^item> \<open>killSucceeds h s t\<close>: whether \<^verbatim>\<open>proc.kill(s)\<close> at time \<open>t\<close> delivers the signal.
\<close>

record env =
  platform :: platform
  cwd :: string
  homedir :: string
  programFiles :: "string option"
  programFilesX86 :: "string option"
  pathJoin :: "string list \<Rightarrow> string"
  pathWin32Join :: "string list \<Rightarrow> string"
  jsonParse :: "string \<Rightarrow> json option"
  appendCdpPath :: "string \<Rightarrow> string \<Rightarrow> string"
  normalizeCdpWsUrl :: "string \<Rightarrow> string \<Rightarrow> string"
  execFileSync :: "string \<Rightarrow> string list \<Rightarrow> string option"
  mkdirError :: "string \<Rightarrow> string option"
  spawnResult :: "string \<Rightarrow> nat \<Rightarrow> spawn_outcome"
  fetch :: "string \<Rightarrow> nat \<Rightarrow> http_reply \<times> nat"
  wsConnect :: "string \<Rightarrow> nat \<Rightarrow> bool \<times> nat"
  procPid :: "nat \<Rightarrow> int option"
  procExitCode :: "nat \<Rightarrow> nat \<Rightarrow> int option"
  killSucceeds :: "nat \<Rightarrow> signal \<Rightarrow> nat \<Rightarrow> bool"

text \<open>
  The world is what the program changes: the files that exist, the clock
  (\<^verbatim>\<open>Date.now()\<close> in milliseconds), the \<^verbatim>\<open>killed\<close> flag of every child process handle, the
  number of children spawned so far, and the trace. Only waiting advances the clock: a
  pause \<^verbatim>\<open>await new Promise((r) => setTimeout(r, ms))\<close> lasts \<open>ms\<close>, a request lasts as long as
  its reply takes (or until it is cut off), and every other call takes no time.
\<close>

record world =
  files :: "string \<Rightarrow> bool"
  now :: nat
  killed :: "nat \<Rightarrow> bool"
  spawned :: nat
  trace :: "event list"

definition emit :: "event \<Rightarrow> world \<Rightarrow> world" where
  "emit e w = w\<lparr>trace := trace w @ [e]\<rparr>"

definition sleep :: "nat \<Rightarrow> world \<Rightarrow> world" where
  "sleep ms w = w\<lparr>now := now w + ms\<rparr>"

section \<open>Strings\<close>

fun digitChar :: "nat \<Rightarrow> char" where
  "digitChar d =
     (if d = 0 then CHR ''0'' else if d = 1 then CHR ''1'' else if d = 2 then CHR ''2''
      else if d = 3 then CHR ''3'' else if d = 4 then CHR ''4'' else if d = 5 then CHR ''5''
      else if d = 6 then CHR ''6'' else if d = 7 then CHR ''7'' else if d = 8 then CHR ''8''
      else CHR ''9'')"

function showNat :: "nat \<Rightarrow> string" where
  "showNat n = (if n < 10 then [digitChar n] else showNat (n div 10) @ [digitChar (n mod 10)])"
  by pat_completeness auto
termination
  by (relation "measure (\<lambda>n. n)") auto

declare showNat.simps [simp del]

text \<open>A whole number in a template literal: \<^verbatim>\<open>`${n}`\<close>.\<close>

definition showInt :: "int \<Rightarrow> string" where
  "showInt i = (if i < 0 then CHR ''-'' # showNat (nat (- i)) else showNat (nat i))"

text \<open>
  \<^verbatim>\<open>String.prototype.trim\<close>, on the white space and line terminators of ASCII.
\<close>

definition isSpace :: "char \<Rightarrow> bool" where
  "isSpace c = (c \<in> set [CHR 0x09, CHR 0x0A, CHR 0x0B, CHR 0x0C, CHR 0x0D, CHR 0x20])"

definition trim :: "string \<Rightarrow> string" where
  "trim s = rev (dropWhile isSpace (rev (dropWhile isSpace s)))"

text \<open>\<^verbatim>\<open>String.prototype.toLowerCase\<close>, on the letters of ASCII.\<close>

definition lowerChar :: "char \<Rightarrow> char" where
  "lowerChar c =
     (let n = (of_char c :: nat) in if 65 \<le> n \<and> n \<le> 90 then char_of (n + 32) else c)"

definition toLowerCase :: "string \<Rightarrow> string" where
  "toLowerCase s = map lowerChar s"

text \<open>\<^verbatim>\<open>String.prototype.includes\<close>.\<close>

fun startsWith :: "string \<Rightarrow> string \<Rightarrow> bool" where
  "startsWith s [] = True"
| "startsWith [] (c # cs) = False"
| "startsWith (d # ds) (c # cs) = (d = c \<and> startsWith ds cs)"

fun js_includes :: "string \<Rightarrow> string \<Rightarrow> bool" where
  "js_includes [] sub = (sub = [])"
| "js_includes (c # cs) sub = (startsWith (c # cs) sub \<or> js_includes cs sub)"

text \<open>\<^verbatim>\<open>s.replace(/\/$/, "")\<close>: one trailing slash removed.\<close>

definition dropTrailingSlash :: "string \<Rightarrow> string" where
  "dropTrailingSlash s = (if s \<noteq> [] \<and> last s = CHR ''/'' then butlast s else s)"

section \<open>Executable resolution (\<^verbatim>\<open>chrome.executables.ts\<close>)\<close>

definition CHROMIUM_BUNDLE_IDS :: "string list" where
  "CHROMIUM_BUNDLE_IDS =
     [''com.google.Chrome'', ''com.google.Chrome.beta'', ''com.google.Chrome.canary'',
      ''com.google.Chrome.dev'', ''com.brave.Browser'', ''com.brave.Browser.beta'',
      ''com.brave.Browser.nightly'', ''com.microsoft.Edge'', ''com.microsoft.EdgeBeta'',
      ''com.microsoft.EdgeDev'', ''com.microsoft.EdgeCanary'', ''org.chromium.Chromium'',
      ''com.vivaldi.Vivaldi'', ''com.operasoftware.Opera'', ''com.operasoftware.OperaGX'',
      ''com.yandex.desktop.yandex-browser'', ''company.thebrowser.Browser'']"

text \<open>
  \<^verbatim>\<open>exists(filePath)\<close>: \<^verbatim>\<open>fs.existsSync\<close>, false when it throws. The query is recorded in the
  trace.
\<close>

definition exists :: "string \<Rightarrow> world \<Rightarrow> bool \<times> world" where
  "exists filePath w = (files w filePath, emit (FsExists filePath) w)"

text \<open>
  \<^verbatim>\<open>execText(command, args)\<close>: the trimmed output of the command, null when the output is
  empty or the command throws.
\<close>

definition execText :: "env \<Rightarrow> string \<Rightarrow> string list \<Rightarrow> world \<Rightarrow> string option \<times> world" where
  "execText E command args w =
     (let w' = emit (ExecFile command args) w in
      case execFileSync E command args of
        None \<Rightarrow> (None, w')
      | Some output \<Rightarrow> (if trim output = [] then None else Some (trim output), w'))"

definition inferKindFromIdentifier :: "string \<Rightarrow> browser_kind" where
  "inferKindFromIdentifier identifier =
     (let ident = toLowerCase identifier in
      if js_includes ident ''brave'' then Brave
      else if js_includes ident ''edge'' then Edge
      else if js_includes ident ''chromium'' then Chromium
      else if js_includes ident ''canary'' then Canary
      else if js_includes ident ''opera'' \<or> js_includes ident ''vivaldi''
              \<or> js_includes ident ''yandex'' \<or> js_includes ident ''thebrowser'' then Chromium
      else Chrome)"

definition inferKindFromExecutableName :: "string \<Rightarrow> browser_kind" where
  "inferKindFromExecutableName nm =
     (let lower = toLowerCase nm in
      if js_includes lower ''brave'' then Brave
      else if js_includes lower ''edge'' \<or> js_includes lower ''msedge'' then Edge
      else if js_includes lower ''chromium'' then Chromium
      else if js_includes lower ''canary'' \<or> js_includes lower ''sxs'' then Canary
      else if js_includes lower ''opera'' \<or> js_includes lower ''vivaldi''
              \<or> js_includes lower ''yandex'' then Chromium
      else Chrome)"

text \<open>
  \<^verbatim>\<open>resolveScheme\<close> of \<^verbatim>\<open>detectDefaultBrowserBundleIdMac\<close>: the role of the last handler
  entry for the scheme that has one. An entry that is not an object is skipped; of an
  object the field read is the last one of that name, as \<^verbatim>\<open>JSON.parse\<close> keeps it.
\<close>

definition field :: "(string \<times> json) list \<Rightarrow> string \<Rightarrow> json option" where
  "field kvs k = map_of (rev kvs) k"

definition nonEmptyString :: "json option \<Rightarrow> string option" where
  "nonEmptyString v = (case v of Some (JStr s) \<Rightarrow> (if s = [] then None else Some s) | _ \<Rightarrow> None)"

fun resolveScheme :: "json list \<Rightarrow> string \<Rightarrow> string option \<Rightarrow> string option" where
  "resolveScheme [] scheme candidate = candidate"
| "resolveScheme (JObj kvs # handlers) scheme candidate =
     (if field kvs ''LSHandlerURLScheme'' \<noteq> Some (JStr scheme)
      then resolveScheme handlers scheme candidate
      else case nonEmptyString (field kvs ''LSHandlerRoleAll'') of
             Some role \<Rightarrow> resolveScheme handlers scheme (Some role)
           | None \<Rightarrow>
               (case nonEmptyString (field kvs ''LSHandlerRoleViewer'') of
                  Some role \<Rightarrow> resolveScheme handlers scheme (Some role)
                | None \<Rightarrow> resolveScheme handlers scheme candidate))"
| "resolveScheme (entry # handlers) scheme candidate = resolveScheme handlers scheme candidate"

definition detectDefaultBrowserBundleIdMac :: "env \<Rightarrow> world \<Rightarrow> string option \<times> world" where
  "detectDefaultBrowserBundleIdMac E w =
     (let plistPath = pathJoin E [homedir E,
            ''Library/Preferences/com.apple.LaunchServices/com.apple.launchservices.secure.plist''];
          (found, w1) = exists plistPath w in
      if \<not> found then (None, w1)
      else
        let (handlersRaw, w2) = execText E ''/usr/bin/plutil''
               [''-extract'', ''LSHandlers'', ''json'', ''-o'', ''-'', ''--'', plistPath] w1 in
        case handlersRaw of
          None \<Rightarrow> (None, w2)
        | Some raw \<Rightarrow>
            (case jsonParse E raw of
               Some (JArr handlers) \<Rightarrow>
                 (case resolveScheme handlers ''http'' None of
                    Some b \<Rightarrow> (Some b, w2)
                  | None \<Rightarrow> (resolveScheme handlers ''https'' None, w2))
             | _ \<Rightarrow> (None, w2)))"

definition detectDefaultChromiumExecutableMac :: "env \<Rightarrow> world \<Rightarrow> browser_executable option \<times> world" where
  "detectDefaultChromiumExecutableMac E w =
     (let (bundle, w1) = detectDefaultBrowserBundleIdMac E w in
      (case bundle of
         None \<Rightarrow> (None, w1)
       | Some bundleId \<Rightarrow>
          (if bundleId = [] \<or> bundleId \<notin> set CHROMIUM_BUNDLE_IDS then (None, w1)
           else
            (let (appPathRaw, w2) = execText E ''/usr/bin/osascript''
                   [''-e'', ''POSIX path of (path to application id '' @ [CHR 0x22] @ bundleId
                      @ [CHR 0x22] @ '')''] w1 in
             (case appPathRaw of
                None \<Rightarrow> (None, w2)
              | Some raw \<Rightarrow>
                 (let appPath = dropTrailingSlash (trim raw);
                      (exeName, w3) = execText E ''/usr/bin/defaults''
                        [''read'', pathJoin E [appPath, ''Contents'', ''Info''],
                         ''CFBundleExecutable''] w2 in
                  (case exeName of
                     None \<Rightarrow> (None, w3)
                   | Some nm \<Rightarrow>
                      (let exePath = pathJoin E [appPath, ''Contents'', ''MacOS'', trim nm];
                           (found, w4) = exists exePath w3 in
                       (if \<not> found then (None, w4)
                        else (Some \<lparr>kind = inferKindFromIdentifier bundleId, path = exePath\<rparr>,
                              w4))))))))))"

text \<open>
  \<^verbatim>\<open>findFirstExecutable\<close>: the first candidate whose path exists. The loop of
  \<^verbatim>\<open>detectDefaultChromiumExecutableLinux\<close> is the same loop over its own three candidates.
\<close>

fun findFirstExecutable :: "browser_executable list \<Rightarrow> world \<Rightarrow> browser_executable option \<times> world" where
  "findFirstExecutable [] w = (None, w)"
| "findFirstExecutable (candidate # candidates) w =
     (let (found, w1) = exists (path candidate) w in
      if found then (Some candidate, w1) else findFirstExecutable candidates w1)"

definition linuxDefaultCandidates :: "browser_executable list" where
  "linuxDefaultCandidates =
     [\<lparr>kind = Chrome, path = ''/usr/bin/google-chrome''\<rparr>,
      \<lparr>kind = Chromium, path = ''/usr/bin/chromium''\<rparr>,
      \<lparr>kind = Chromium, path = ''/usr/bin/chromium-browser''\<rparr>]"

definition detectDefaultChromiumExecutableLinux :: "world \<Rightarrow> browser_executable option \<times> world" where
  "detectDefaultChromiumExecutableLinux w = findFirstExecutable linuxDefaultCandidates w"

definition detectDefaultChromiumExecutableWindows :: "world \<Rightarrow> browser_executable option \<times> world" where
  "detectDefaultChromiumExecutableWindows w = (None, w)"

definition detectDefaultChromiumExecutable ::
  "env \<Rightarrow> platform \<Rightarrow> world \<Rightarrow> browser_executable option \<times> world" where
  "detectDefaultChromiumExecutable E plat w =
     (if plat = Darwin then detectDefaultChromiumExecutableMac E w
      else if plat = Linux then detectDefaultChromiumExecutableLinux w
      else if plat = Win32 then detectDefaultChromiumExecutableWindows w
      else (None, w))"

definition macCandidates :: "env \<Rightarrow> browser_executable list" where
  "macCandidates E =
     [\<lparr>kind = Chrome, path = ''/Applications/Google Chrome.app/Contents/MacOS/Google Chrome''\<rparr>,
      \<lparr>kind = Chrome, path = pathJoin E [homedir E,
          ''Applications/Google Chrome.app/Contents/MacOS/Google Chrome'']\<rparr>,
      \<lparr>kind = Brave, path = ''/Applications/Brave Browser.app/Contents/MacOS/Brave Browser''\<rparr>,
      \<lparr>kind = Brave, path = pathJoin E [homedir E,
          ''Applications/Brave Browser.app/Contents/MacOS/Brave Browser'']\<rparr>,
      \<lparr>kind = Chromium, path = ''/Applications/Chromium.app/Contents/MacOS/Chromium''\<rparr>,
      \<lparr>kind = Chromium, path = pathJoin E [homedir E,
          ''Applications/Chromium.app/Contents/MacOS/Chromium'']\<rparr>,
      \<lparr>kind = Canary,
       path = ''/Applications/Google Chrome Canary.app/Contents/MacOS/Google Chrome Canary''\<rparr>]"

definition findChromeExecutableMac :: "env \<Rightarrow> world \<Rightarrow> browser_executable option \<times> world" where
  "findChromeExecutableMac E w = findFirstExecutable (macCandidates E) w"

definition linuxCandidates :: "browser_executable list" where
  "linuxCandidates =
     [\<lparr>kind = Chrome, path = ''/usr/bin/google-chrome''\<rparr>,
      \<lparr>kind = Chrome, path = ''/usr/bin/google-chrome-stable''\<rparr>,
      \<lparr>kind = Chrome, path = ''/usr/bin/chrome''\<rparr>,
      \<lparr>kind = Chromium, path = ''/usr/bin/chromium''\<rparr>,
      \<lparr>kind = Chromium, path = ''/usr/bin/chromium-browser''\<rparr>,
      \<lparr>kind = Chromium, path = ''/snap/bin/chromium''\<rparr>]"

definition findChromeExecutableLinux :: "world \<Rightarrow> browser_executable option \<times> world" where
  "findChromeExecutableLinux w = findFirstExecutable linuxCandidates w"

definition windowsCandidates :: "env \<Rightarrow> browser_executable list" where
  "windowsCandidates E =
     (let pf = (case programFiles E of Some d \<Rightarrow> d | None \<Rightarrow> ''C:'' @ [CHR 0x5C] @ ''Program Files'');
          pf86 = (case programFilesX86 E of Some d \<Rightarrow> d | None \<Rightarrow> ''C:'' @ [CHR 0x5C] @ ''Program Files (x86)'') in
      [\<lparr>kind = Chrome,
        path = pathWin32Join E [pf, ''Google'', ''Chrome'', ''Application'', ''chrome.exe'']\<rparr>,
       \<lparr>kind = Chrome,
        path = pathWin32Join E [pf86, ''Google'', ''Chrome'', ''Application'', ''chrome.exe'']\<rparr>])"

definition findChromeExecutableWindows :: "env \<Rightarrow> world \<Rightarrow> browser_executable option \<times> world" where
  "findChromeExecutableWindows E w = findFirstExecutable (windowsCandidates E) w"

text \<open>
  \<^verbatim>\<open>resolveBrowserExecutableForPlatform\<close>. The test \<^verbatim>\<open>if (resolved.executablePath)\<close> is
  JavaScript truthiness: the field is set and is not the empty string (\<open>truthyString\<close>).
\<close>

definition truthyString :: "string option \<Rightarrow> string option" where
  "truthyString v = (case v of Some s \<Rightarrow> (if s = [] then None else Some s) | None \<Rightarrow> None)"

definition resolveBrowserExecutableForPlatform ::
  "env \<Rightarrow> resolved_browser_config \<Rightarrow> platform \<Rightarrow> world
     \<Rightarrow> (error + browser_executable option) \<times> world" where
  "resolveBrowserExecutableForPlatform E resolved plat w =
     (case truthyString (executablePath resolved) of
        Some p \<Rightarrow>
          (let (found, w1) = exists p w in
           (if \<not> found then (Inl (ExecutablePathNotFound p), w1)
            else (Inr (Some \<lparr>kind = Custom, path = p\<rparr>), w1)))
      | None \<Rightarrow>
          (let (detected, w1) = detectDefaultChromiumExecutable E plat w in
           (case detected of
              Some d \<Rightarrow> (Inr (Some d), w1)
            | None \<Rightarrow>
               (if plat = Darwin then apfst Inr (findChromeExecutableMac E w1)
                else if plat = Linux then apfst Inr (findChromeExecutableLinux w1)
                else if plat = Win32 then apfst Inr (findChromeExecutableWindows E w1)
                else (Inr None, w1)))))"

section \<open>Probing the CDP endpoint (\<^verbatim>\<open>chrome.ts\<close>)\<close>

definition resolveBrowserExecutable ::
  "env \<Rightarrow> resolved_browser_config \<Rightarrow> world \<Rightarrow> (error + browser_executable option) \<times> world" where
  "resolveBrowserExecutable E resolved w =
     resolveBrowserExecutableForPlatform E resolved (platform E) w"

definition cdpUrlForPort :: "int \<Rightarrow> string" where
  "cdpUrlForPort port = ''http://127.0.0.1:'' @ showInt port"

text \<open>
  \<^verbatim>\<open>fetchChromeVersion\<close>. The request is aborted when it has not finished after
  \<open>timeoutMs\<close>; an abort, a network error, a status that is not ok, a body that does not
  parse and a body that is not an object all give null. The call takes the time of the
  reply, or \<open>timeoutMs\<close> when it is aborted.
\<close>

definition fetchChromeVersion :: "env \<Rightarrow> string \<Rightarrow> nat \<Rightarrow> world \<Rightarrow> chrome_version option \<times> world" where
  "fetchChromeVersion E url timeoutMs w =
     (let versionUrl = appendCdpPath E url ''/json/version'';
          w1 = emit (HttpGet versionUrl) w;
          (reply, latency) = fetch E versionUrl (now w) in
      (if timeoutMs \<le> latency then (None, sleep timeoutMs w1)
       else
        (case reply of
           NetworkError \<Rightarrow> (None, sleep latency w1)
         | Response ok body \<Rightarrow>
            (if \<not> ok then (None, sleep latency w1)
             else
              (case body of
                 BodyObject v \<Rightarrow> (Some v, sleep latency w1)
               | _ \<Rightarrow> (None, sleep latency w1))))))"

definition isChromeReachable :: "env \<Rightarrow> string \<Rightarrow> nat \<Rightarrow> world \<Rightarrow> bool \<times> world" where
  "isChromeReachable E url timeoutMs w =
     (let (version, w1) = fetchChromeVersion E url timeoutMs w in (version \<noteq> None, w1))"




section \<open>Launching (\<^verbatim>\<open>launchClawdChrome\<close>)\<close>

definition kindName :: "browser_kind \<Rightarrow> string" where
  "kindName k =
     (case k of Brave \<Rightarrow> ''brave'' | Canary \<Rightarrow> ''canary'' | Chromium \<Rightarrow> ''chromium''
      | Chrome \<Rightarrow> ''chrome'' | Custom \<Rightarrow> ''custom'' | Edge \<Rightarrow> ''edge'')"

definition quoted :: "string \<Rightarrow> string" where
  "quoted s = [CHR 0x22] @ s @ [CHR 0x22]"

definition errorMessage :: "error \<Rightarrow> string" where
  "errorMessage e =
     (case e of
        ProfileIsRemote n \<Rightarrow> ''Profile '' @ quoted n @ '' is remote; cannot launch local Chrome.''
      | NoSupportedBrowser \<Rightarrow>
          ''No supported browser found (Chrome/Brave/Edge/Chromium on macOS, Linux, or Windows).''
      | ExecutablePathNotFound p \<Rightarrow> ''browser.executablePath not found: '' @ p
      | CdpStartFailed port n \<Rightarrow>
          ''Failed to start Chrome CDP on port '' @ showInt port @ '' for profile '' @ quoted n @ ''.''
      | BrowserNotStarted \<Rightarrow> ''Browser not started''
      | FsError msg \<Rightarrow> msg
      | SpawnError msg \<Rightarrow> msg
      | UncaughtChildError msg \<Rightarrow> msg)"

text \<open>
  \<^verbatim>\<open>fs.mkdirSync(dir, { recursive: true })\<close>: the call is recorded; it creates the directory,
  or throws (the result is then the message).
\<close>

definition mkdirSync :: "env \<Rightarrow> string \<Rightarrow> world \<Rightarrow> string option \<times> world" where
  "mkdirSync E dir w =
     (case mkdirError E dir of
        Some msg \<Rightarrow> (Some msg, emit (FsMkdir dir) w)
      | None \<Rightarrow> (None, (emit (FsMkdir dir) w)\<lparr>files := (files w)(dir := True)\<rparr>))"

text \<open>
  \<^verbatim>\<open>spawn(command, args, options)\<close>. The call is recorded with the command, the arguments
  (not the options: piped stdio, the environment with \<^verbatim>\<open>HOME\<close> set) and the next handle.
  When \<^verbatim>\<open>spawn\<close> throws there is no child. Otherwise the child has that handle and its
  \<^verbatim>\<open>killed\<close> flag is false, also when the spawn failed at run time: Node still returns the
  child object then.
\<close>

definition spawn ::
  "env \<Rightarrow> string \<Rightarrow> string list \<Rightarrow> world \<Rightarrow> spawn_outcome \<times> nat \<times> world" where
  "spawn E command args w =
     (case spawnResult E command (now w) of
        Throws msg \<Rightarrow> (Throws msg, spawned w, emit (Spawn (spawned w) command args) w)
      | outcome \<Rightarrow>
          (outcome, spawned w,
           (emit (Spawn (spawned w) command args) w)
             \<lparr>killed := (killed w)(spawned w := False), spawned := spawned w + 1\<rparr>))"

text \<open>
  \<^verbatim>\<open>proc.kill(signal)\<close> sets the \<^verbatim>\<open>killed\<close> flag when the signal was delivered (Node sets
  \<^verbatim>\<open>killed\<close> when the signal was sent with success); every \<^verbatim>\<open>kill\<close> of the source stands in a
  \<^verbatim>\<open>try\<close> that ignores what it throws.
\<close>

definition kill :: "env \<Rightarrow> nat \<Rightarrow> signal \<Rightarrow> world \<Rightarrow> world" where
  "kill E h sig w =
     (let w1 = emit (Kill h sig) w in
      (if killSucceeds E h sig (now w) then w1\<lparr>killed := (killed w1)(h := True)\<rparr> else w1))"

text \<open>The argument list that \<^verbatim>\<open>spawnOnce\<close> builds, push by push.\<close>

definition spawnArgs ::
  "env \<Rightarrow> resolved_browser_config \<Rightarrow> resolved_browser_profile \<Rightarrow> string \<Rightarrow> string list" where
  "spawnArgs E resolved profile dir =
     (let args = [''--remote-debugging-port='' @ showInt (cdpPort profile),
                  ''--user-data-dir='' @ dir,
                  ''--no-first-run'',
                  ''--no-default-browser-check'',
                  ''--disable-sync'',
                  ''--disable-background-networking'',
                  ''--disable-component-update'',
                  ''--disable-features=Translate,MediaRouter'',
                  ''--disable-session-crashed-bubble'',
                  ''--hide-crash-restore-bubble'',
                  ''--password-store=basic''];
          args = (if headless resolved then (args @ [''--headless=new'']) @ [''--disable-gpu'']
                  else args);
          args = (if noSandbox resolved then (args @ [''--no-sandbox'']) @ [''--disable-setuid-sandbox'']
                  else args);
          args = (if platform E = Linux then args @ [''--disable-dev-shm-usage''] else args);
          args = args @ [''about:blank'']
      in args)"

lemma now_fetchChromeVersion: "now w \<le> now (snd (fetchChromeVersion E url t w))"
  by (simp add: fetchChromeVersion_def emit_def sleep_def Let_def
      split: prod.splits http_reply.splits version_body.splits)

lemma now_isChromeReachable: "now w \<le> now (snd (isChromeReachable E url t w))"
  using now_fetchChromeVersion [of w E url t]
  by (auto simp add: isChromeReachable_def split: prod.splits)

text \<open>
  The loop that waits for CDP to come up:
  \<^verbatim>\<open>while (Date.now() < readyDeadline) { if (await isChromeReachable(url, 500)) break; await sleep(200); }\<close>
\<close>

function waitForCdp :: "env \<Rightarrow> string \<Rightarrow> nat \<Rightarrow> world \<Rightarrow> world" where
  "waitForCdp E url readyDeadline w =
     (if now w < readyDeadline then
        (let (reachable, w1) = isChromeReachable E url 500 w in
         (if reachable then w1 else waitForCdp E url readyDeadline (sleep 200 w1)))
      else w)"
  by pat_completeness auto
termination
proof (relation "measure (\<lambda>(E, url, readyDeadline, w). readyDeadline - now w)")
  show "wf (measure (\<lambda>(E, url, readyDeadline, w). readyDeadline - now w))"
    by simp
next
  fix E :: env and url :: string and readyDeadline :: nat and w :: world
    and x :: "bool \<times> world" and reachable :: bool and w1 :: world
  assume "now w < readyDeadline" and "x = isChromeReachable E url 500 w"
    and "(reachable, w1) = x"
  then have "now w \<le> now w1"
    using now_isChromeReachable [of w E url 500] by (metis snd_conv)
  with \<open>now w < readyDeadline\<close>
  show "((E, url, readyDeadline, sleep 200 w1), (E, url, readyDeadline, w))
          \<in> measure (\<lambda>(E, url, readyDeadline, w). readyDeadline - now w)"
    by (simp add: sleep_def)
qed

declare waitForCdp.simps [simp del]

text \<open>
  \<^verbatim>\<open>launchClawdChrome\<close>. After a spawn that failed at run time the function goes on as far as
  its first \<^verbatim>\<open>await\<close>: the deadline is set, the loop is entered and the first GET of
  \<^verbatim>\<open>/json/version\<close> is issued; while that request is pending the child's \<^verbatim>\<open>'error'\<close> event is
  emitted and ends the Node process.
\<close>

definition launchClawdChrome ::
  "env \<Rightarrow> resolved_browser_config \<Rightarrow> resolved_browser_profile \<Rightarrow> world
     \<Rightarrow> (error + running_chrome) \<times> world" where
  "launchClawdChrome E resolved profile w =
     (if \<not> cdpIsLoopback profile then (Inl (ProfileIsRemote (name profile)), w)
      else
       (case resolveBrowserExecutable E resolved w of
          (Inl e, w1) \<Rightarrow> (Inl e, w1)
        | (Inr None, w1) \<Rightarrow> (Inl NoSupportedBrowser, w1)
        | (Inr (Some ex), w1) \<Rightarrow>
           (let dir = pathJoin E [cwd E, ''browser-data'', name profile] in
            (case mkdirSync E dir w1 of
               (Some msg, w2) \<Rightarrow> (Inl (FsError msg), w2)
             | (None, w2) \<Rightarrow>
                (let started = now w2 in
                 (case spawn E (path ex) (spawnArgs E resolved profile dir) w2 of
                    (Throws msg, child, w3) \<Rightarrow> (Inl (SpawnError msg), w3)
                  | (EmitsError msg, child, w3) \<Rightarrow>
                      (Inl (UncaughtChildError msg),
                       emit (HttpGet (appendCdpPath E (cdpUrl profile) ''/json/version'')) w3)
                  | (Started, child, w3) \<Rightarrow>
                     (let readyDeadline = now w3 + 15000;
                          w4 = waitForCdp E (cdpUrl profile) readyDeadline w3;
                          (reachable, w5) = isChromeReachable E (cdpUrl profile) 500 w4 in
                      (if \<not> reachable then
                         (Inl (CdpStartFailed (cdpPort profile) (name profile)),
                          kill E child SIGKILL w5)
                       else
                         (let p = (case procPid E child of Some n \<Rightarrow> n | None \<Rightarrow> - 1);
                              w6 = emit (ConsoleLog (''Browser started ('' @ kindName (kind ex)
                                      @ '') on port '' @ showInt (cdpPort profile)
                                      @ '' (pid '' @ showInt p @ '')'')) w5 in
                          (Inr \<lparr>pid = p, exe = ex, userDataDir = dir,
                                cdpPort_rc = cdpPort profile, startedAt = started,
                                proc = child\<rparr>, w6))))))))))"

section \<open>Stopping (\<^verbatim>\<open>stopClawdChrome\<close>)\<close>

text \<open>\<^verbatim>\<open>!proc.exitCode\<close>: the exit code is null or zero.\<close>

definition falsyExitCode :: "int option \<Rightarrow> bool" where
  "falsyExitCode c = (case c of None \<Rightarrow> True | Some n \<Rightarrow> n = 0)"

text \<open>
  The three ways out of the polling loop of \<^verbatim>\<open>stopClawdChrome\<close>: the \<^verbatim>\<open>return\<close> when the
  endpoint no longer answers, the \<^verbatim>\<open>break\<close>, and the loop condition turning false.
\<close>

datatype loop_exit = Returned | Broke | TimedOut

function stopWait :: "env \<Rightarrow> running_chrome \<Rightarrow> nat \<Rightarrow> nat \<Rightarrow> world \<Rightarrow> loop_exit \<times> world" where
  "stopWait E running start timeoutMs w =
     (if now w - start < timeoutMs then
        (if falsyExitCode (procExitCode E (proc running) (now w)) \<and> killed w (proc running)
         then (Broke, w)
         else
          (let (reachable, w1) = isChromeReachable E (cdpUrlForPort (cdpPort_rc running)) 200 w in
           (if \<not> reachable then (Returned, w1)
            else stopWait E running start timeoutMs (sleep 100 w1))))
      else (TimedOut, w))"
  by pat_completeness auto
termination
proof (relation "measure (\<lambda>(E, running, start, timeoutMs, w). (start + timeoutMs) - now w)")
  show "wf (measure (\<lambda>(E, running, start, timeoutMs, w). (start + timeoutMs) - now w))"
    by simp
next
  fix E :: env and running :: running_chrome and start timeoutMs :: nat and w :: world
    and x :: "bool \<times> world" and reachable :: bool and w1 :: world
  assume "now w - start < timeoutMs"
    and "x = isChromeReachable E (cdpUrlForPort (cdpPort_rc running)) 200 w"
    and "(reachable, w1) = x"
  then have "now w \<le> now w1"
    using now_isChromeReachable [of w E "cdpUrlForPort (cdpPort_rc running)" 200]
    by (metis snd_conv)
  with \<open>now w - start < timeoutMs\<close>
  show "((E, running, start, timeoutMs, sleep 100 w1), (E, running, start, timeoutMs, w))
          \<in> measure (\<lambda>(E, running, start, timeoutMs, w). (start + timeoutMs) - now w)"
    by (simp add: sleep_def)
qed

declare stopWait.simps [simp del]

definition stopClawdChrome :: "env \<Rightarrow> running_chrome \<Rightarrow> nat \<Rightarrow> world \<Rightarrow> world" where
  "stopClawdChrome E running timeoutMs w =
     (if killed w (proc running) then w
      else
       (let w1 = kill E (proc running) SIGTERM w;
            start = now w1;
            (how, w2) = stopWait E running start timeoutMs w1 in
        (if how = Returned then w2 else kill E (proc running) SIGKILL w2)))"

section \<open>The session registry (\<^verbatim>\<open>browserStart\<close>, \<^verbatim>\<open>browserStop\<close>, \<^verbatim>\<open>getCdpUrl\<close>)\<close>

text \<open>
  The module variable \<^verbatim>\<open>activeBrowser\<close> is passed in and returned. The argument of
  \<^verbatim>\<open>browserStart\<close> is \<^verbatim>\<open>opts?: { headless?: boolean }\<close>. An error of the launch leaves no
  session tracked (the variable was null, or has just been set to null); that is also what
  is returned when the launch ended the Node process, where the variable no longer matters.
\<close>

record start_opts =
  opt_headless :: "bool option"

definition startConfig :: "start_opts option \<Rightarrow> resolved_browser_config" where
  "startConfig opts =
     \<lparr>executablePath = None,
      headless = (case opts of Some r \<Rightarrow> (case opt_headless r of Some b \<Rightarrow> b | None \<Rightarrow> False)
                  | None \<Rightarrow> False),
      noSandbox = False, enabled = None, controlPort = None\<rparr>"

definition startProfile :: resolved_browser_profile where
  "startProfile =
     \<lparr>name = ''default'', cdpPort = 9222, cdpUrl = ''http://127.0.0.1:9222'',
      cdpIsLoopback = True, color = ''#ff0000''\<rparr>"

definition browserStart ::
  "env \<Rightarrow> start_opts option \<Rightarrow> running_chrome option \<Rightarrow> world
     \<Rightarrow> (error + unit) \<times> running_chrome option \<times> world" where
  "browserStart E opts activeBrowser w =
     (let (reuse, w1) =
            (case activeBrowser of
               Some rc \<Rightarrow> isChromeReachable E (''http://127.0.0.1:'' @ showInt (cdpPort_rc rc)) 500 w
             | None \<Rightarrow> (False, w)) in
      (if reuse then (Inr (), activeBrowser, w1)
       else
        (case launchClawdChrome E (startConfig opts) startProfile w1 of
           (Inl e, w2) \<Rightarrow> (Inl e, None, w2)
         | (Inr rc, w2) \<Rightarrow> (Inr (), Some rc, w2))))"

definition browserStop ::
  "env \<Rightarrow> running_chrome option \<Rightarrow> world \<Rightarrow> (error + unit) \<times> running_chrome option \<times> world" where
  "browserStop E activeBrowser w =
     (case activeBrowser of
        None \<Rightarrow> (Inr (), None, w)
      | Some rc \<Rightarrow> (Inr (), None, stopClawdChrome E rc 2500 w))"

definition getCdpUrl :: "running_chrome option \<Rightarrow> error + string" where
  "getCdpUrl activeBrowser =
     (case activeBrowser of
        None \<Rightarrow> Inl BrowserNotStarted
      | Some rc \<Rightarrow> Inr (''http://127.0.0.1:'' @ showInt (cdpPort_rc rc)))"

section \<open>Reachability and sample environments\<close>

text \<open>
  The endpoint at \<open>url\<close> answers a probe issued at time \<open>t\<close> with time-out \<open>timeoutMs\<close>: the
  GET of \<^verbatim>\<open>/json/version\<close> is answered in time, with an ok status and an object as body.
\<close>

definition reachable :: "env \<Rightarrow> string \<Rightarrow> nat \<Rightarrow> nat \<Rightarrow> bool" where
  "reachable E url timeoutMs t =
     (case fetch E (appendCdpPath E url ''/json/version'') t of
        (Response ok (BodyObject v), latency) \<Rightarrow> ok \<and> latency < timeoutMs
      | _ \<Rightarrow> False)"

text \<open>
  Environments and worlds for the concrete runs below. \<open>linuxBox\<close> is a Linux host on which
  every directory can be created, every spawn starts a child, nothing answers HTTP and
  every signal is delivered; on \<open>answeringBox\<close> the version endpoint answers after 20 ms
  while every WebSocket handshake still errors.
\<close>

definition joinWith :: "string \<Rightarrow> string list \<Rightarrow> string" where
  "joinWith sep parts = foldr (\<lambda>a b. if b = [] then a else a @ sep @ b) parts []"

definition linuxBox :: env where
  "linuxBox =
     \<lparr>platform = Linux, cwd = ''/srv/agent'', homedir = ''/home/agent'',
      programFiles = None, programFilesX86 = None,
      pathJoin = joinWith ''/'', pathWin32Join = joinWith [CHR 0x5C],
      jsonParse = (\<lambda>s. None),
      appendCdpPath = (\<lambda>u p. u @ p),
      normalizeCdpWsUrl = (\<lambda>u base. u),
      execFileSync = (\<lambda>c a. None),
      mkdirError = (\<lambda>d. None),
      spawnResult = (\<lambda>c t. Started),
      fetch = (\<lambda>u t. (NetworkError, 500)),
      wsConnect = (\<lambda>u t. (False, 5)),
      procPid = (\<lambda>h. Some 4242),
      procExitCode = (\<lambda>h t. None),
      killSucceeds = (\<lambda>h s t. True)\<rparr>"

definition answeringBox :: env where
  "answeringBox =
     linuxBox\<lparr>fetch := (\<lambda>u t. (Response True (BodyObject
        \<lparr>webSocketDebuggerUrl = Some ''ws://127.0.0.1:9222/devtools/browser/abc'',
         Browser = None, User_Agent = None\<rparr>), 20))\<rparr>"

text \<open>
  Two hosts on which the launch cannot get a browser going: on \<open>noExecBox\<close> every spawn
  fails at run time (the file cannot be executed), on \<open>readOnlyBox\<close> no directory can be
  created.
\<close>

definition noExecBox :: env where
  "noExecBox = linuxBox\<lparr>spawnResult := (\<lambda>c t. EmitsError ''spawn EACCES'')\<rparr>"

definition readOnlyBox :: env where
  "readOnlyBox = linuxBox\<lparr>mkdirError := (\<lambda>d. Some ''EACCES: permission denied, mkdir'')\<rparr>"

definition freshWorld :: "string list \<Rightarrow> world" where
  "freshWorld paths =
     \<lparr>files = (\<lambda>p. p \<in> set paths), now = 0, killed = (\<lambda>h. False), spawned = 0, trace = []\<rparr>"

text \<open>
  A tracked session and the world it lives in: child 0 runs (its exit code is null on both
  hosts above), and no signal has been sent to it.
\<close>

definition liveSession :: running_chrome where
  "liveSession =
     \<lparr>pid = 4242, exe = \<lparr>kind = Chromium, path = ''/usr/bin/chromium''\<rparr>,
      userDataDir = ''/srv/agent/browser-data/default'', cdpPort_rc = 9222,
      startedAt = 0, proc = 0\<rparr>"

definition liveWorld :: world where
  "liveWorld =
     \<lparr>files = (\<lambda>p. p = ''/usr/bin/chromium''), now = 60000, killed = (\<lambda>h. False),
      spawned = 1, trace = []\<rparr>"

text \<open>
  Names for parts of a run, used to state the facts below: the URL that a probe of \<open>url\<close>
  fetches, the time a probe issued at time \<open>t\<close> takes (the reply's, cut off at the
  time-out), the world after one probe, the user-data directory that \<^verbatim>\<open>launchClawdChrome\<close>
  computes, the world right after it has created that directory and spawned the browser, and
  the WebSocket handshakes of a trace.
\<close>

definition versionUrl :: "env \<Rightarrow> string \<Rightarrow> string" where
  "versionUrl E url = appendCdpPath E url ''/json/version''"

definition probeTime :: "env \<Rightarrow> string \<Rightarrow> nat \<Rightarrow> nat \<Rightarrow> nat" where
  "probeTime E url timeoutMs t = min (snd (fetch E (versionUrl E url) t)) timeoutMs"

definition probed :: "env \<Rightarrow> string \<Rightarrow> nat \<Rightarrow> world \<Rightarrow> world" where
  "probed E url timeoutMs w =
     sleep (probeTime E url timeoutMs (now w)) (emit (HttpGet (versionUrl E url)) w)"

definition dataDir :: "env \<Rightarrow> resolved_browser_profile \<Rightarrow> string" where
  "dataDir E profile = pathJoin E [cwd E, ''browser-data'', name profile]"

definition spawnedWorld ::
  "env \<Rightarrow> resolved_browser_config \<Rightarrow> resolved_browser_profile \<Rightarrow> browser_executable
     \<Rightarrow> world \<Rightarrow> world" where
  "spawnedWorld E resolved profile ex w1 =
     snd (snd (spawn E (path ex) (spawnArgs E resolved profile (dataDir E profile))
                 (snd (mkdirSync E (dataDir E profile) w1))))"

definition isWsOpen :: "event \<Rightarrow> bool" where
  "isWsOpen e = (case e of WsOpen u \<Rightarrow> True | _ \<Rightarrow> False)"

definition handshakes :: "world \<Rightarrow> event list" where
  "handshakes w = filter isWsOpen (trace w)"

section \<open>Facts about the probes and the scans\<close>

lemma fst_findFirstExecutable:
  "fst (findFirstExecutable cs w) = find (\<lambda>c. files w (path c)) cs"
  by (induction cs arbitrary: w) (auto simp add: exists_def emit_def split: prod.splits)

lemma files_findFirstExecutable:
  "files (snd (findFirstExecutable cs w)) = files w"
  by (induction cs arbitrary: w) (auto simp add: exists_def emit_def split: prod.splits)

lemma find_app: "find P (xs @ ys) = (case find P xs of None \<Rightarrow> find P ys | Some x \<Rightarrow> Some x)"
  by (induction xs) auto

lemma fst_detect_linux:
  "fst (detectDefaultChromiumExecutable E Linux w)
     = find (\<lambda>c. files w (path c)) linuxDefaultCandidates"
  by (simp add: detectDefaultChromiumExecutable_def detectDefaultChromiumExecutableLinux_def
      fst_findFirstExecutable)

lemma files_detect_linux:
  "files (snd (detectDefaultChromiumExecutable E Linux w)) = files w"
  by (simp add: detectDefaultChromiumExecutable_def detectDefaultChromiumExecutableLinux_def
      files_findFirstExecutable)

section \<open>Facts about the readiness loop and the launch\<close>

lemma isChromeReachable_eq:
  "isChromeReachable E url timeoutMs w = (reachable E url timeoutMs (now w), probed E url timeoutMs w)"
  by (auto simp add: isChromeReachable_def fetchChromeVersion_def reachable_def probed_def
      probeTime_def versionUrl_def Let_def min_def
      split: prod.splits http_reply.splits version_body.splits)

lemma waitForCdp_unfold:
  "waitForCdp E url D w =
     (if now w < D then
        (if reachable E url 500 (now w) then probed E url 500 w
         else waitForCdp E url D (sleep 200 (probed E url 500 w)))
      else w)"
  by (simp add: waitForCdp.simps [of E url D w] isChromeReachable_eq)

lemma probed_fields [simp]:
  "trace (probed E url tm w) = trace w @ [HttpGet (versionUrl E url)]"
  "files (probed E url tm w) = files w"
  "killed (probed E url tm w) = killed w"
  "spawned (probed E url tm w) = spawned w"
  "now (probed E url tm w) = now w + probeTime E url tm (now w)"
  by (simp_all add: probed_def sleep_def emit_def)

lemma sleep_fields [simp]:
  "trace (sleep d w) = trace w"
  "files (sleep d w) = files w"
  "killed (sleep d w) = killed w"
  "spawned (sleep d w) = spawned w"
  "now (sleep d w) = now w + d"
  by (simp_all add: sleep_def)

lemma probeTime_le: "probeTime E url tm t \<le> tm"
  by (simp add: probeTime_def)

lemma waitForCdp_induct_rule:
  assumes step: "\<And>w. (now w < D \<Longrightarrow> \<not> reachable E url 500 (now w)
                    \<Longrightarrow> P (sleep 200 (probed E url 500 w))) \<Longrightarrow> P w"
  shows "P w"
proof (induction "D - now w" arbitrary: w rule: less_induct)
  case less
  show ?case
  proof (rule step)
    assume "now w < D" and "\<not> reachable E url 500 (now w)"
    then have "D - now (sleep 200 (probed E url 500 w)) < D - now w"
      by simp
    then show "P (sleep 200 (probed E url 500 w))"
      by (rule less.hyps)
  qed
qed

lemma trace_waitForCdp:
  "\<exists>n. trace (waitForCdp E url D w) = trace w @ replicate n (HttpGet (versionUrl E url))"
proof (induction w rule: waitForCdp_induct_rule [where E = E and url = url and D = D])
  case (1 w)
  show ?case
  proof (cases "now w < D \<and> \<not> reachable E url 500 (now w)")
    case True
    then obtain n where "trace (waitForCdp E url D (sleep 200 (probed E url 500 w)))
        = trace (sleep 200 (probed E url 500 w)) @ replicate n (HttpGet (versionUrl E url))"
      using 1 by blast
    then have "trace (waitForCdp E url D w)
        = trace w @ replicate (Suc n) (HttpGet (versionUrl E url))"
      using True by (subst waitForCdp_unfold) simp
    then show ?thesis by blast
  next
    case False
    then have "trace (waitForCdp E url D w) = trace w @ replicate 0 (HttpGet (versionUrl E url))
      \<or> trace (waitForCdp E url D w) = trace w @ replicate 1 (HttpGet (versionUrl E url))"
      by (subst waitForCdp_unfold, subst waitForCdp_unfold) auto
    then show ?thesis by blast
  qed
qed


lemma frame_waitForCdp:
  "files (waitForCdp E url D w) = files w \<and> killed (waitForCdp E url D w) = killed w
   \<and> spawned (waitForCdp E url D w) = spawned w"
proof (induction w rule: waitForCdp_induct_rule [where E = E and url = url and D = D])
  case (1 w)
  then show ?case
    by (subst (1 2 3) waitForCdp_unfold) simp
qed

lemma now_waitForCdp_upper:
  "now w \<le> D + 699 \<Longrightarrow> now (waitForCdp E url D w) \<le> D + 699"
proof (induction w rule: waitForCdp_induct_rule [where E = E and url = url and D = D])
  case (1 w)
  have pt: "probeTime E url 500 (now w) \<le> 500"
    by (rule probeTime_le)
  show ?case
  proof (cases "now w < D \<and> \<not> reachable E url 500 (now w)")
    case True
    then have "now (sleep 200 (probed E url 500 w)) \<le> D + 699"
      using pt by simp
    then have "now (waitForCdp E url D (sleep 200 (probed E url 500 w))) \<le> D + 699"
      using 1 True by blast
    then show ?thesis
      using True by (subst waitForCdp_unfold) simp
  next
    case False
    then show ?thesis
      using pt "1.prems" by (subst waitForCdp_unfold) auto
  qed
qed

lemma now_waitForCdp_lower:
  "\<forall>t. \<not> reachable E url 500 t \<Longrightarrow> D \<le> now (waitForCdp E url D w)"
proof (induction w rule: waitForCdp_induct_rule [where E = E and url = url and D = D])
  case (1 w)
  then show ?case
    by (subst waitForCdp_unfold) simp
qed

lemma now_waitForCdp_mono: "now w \<le> now (waitForCdp E url D w)"
proof (induction w rule: waitForCdp_induct_rule [where E = E and url = url and D = D])
  case (1 w)
  show ?case
  proof (cases "now w < D \<and> \<not> reachable E url 500 (now w)")
    case True
    then have "now (sleep 200 (probed E url 500 w))
        \<le> now (waitForCdp E url D (sleep 200 (probed E url 500 w)))"
      using 1 by blast
    then show ?thesis
      using True by (subst waitForCdp_unfold) simp
  next
    case False
    then show ?thesis
      by (subst waitForCdp_unfold) auto
  qed
qed

lemma spawnedWorld_fields [simp]:
  "trace (spawnedWorld E resolved profile ex w1) =
     trace w1 @ [FsMkdir (dataDir E profile),
                 Spawn (spawned w1) (path ex) (spawnArgs E resolved profile (dataDir E profile))]"
  "now (spawnedWorld E resolved profile ex w1) = now w1"
  by (simp_all add: spawnedWorld_def spawn_def mkdirSync_def emit_def
      split: option.splits spawn_outcome.splits)

lemma launch_resolved:
  assumes "cdpIsLoopback profile"
    and "resolveBrowserExecutable E resolved w = (Inr (Some ex), w1)"
  shows "launchClawdChrome E resolved profile w =
     (case mkdirError E (dataDir E profile) of
        Some msg \<Rightarrow> (Inl (FsError msg), emit (FsMkdir (dataDir E profile)) w1)
      | None \<Rightarrow>
         (case spawnResult E (path ex) (now w1) of
            Throws msg \<Rightarrow> (Inl (SpawnError msg), spawnedWorld E resolved profile ex w1)
          | EmitsError msg \<Rightarrow>
              (Inl (UncaughtChildError msg),
               emit (HttpGet (versionUrl E (cdpUrl profile)))
                 (spawnedWorld E resolved profile ex w1))
          | Started \<Rightarrow>
             (let w3 = spawnedWorld E resolved profile ex w1;
                  w4 = waitForCdp E (cdpUrl profile) (now w1 + 15000) w3;
                  w5 = probed E (cdpUrl profile) 500 w4 in
              if reachable E (cdpUrl profile) 500 (now w4) then
                (Inr \<lparr>pid = (case procPid E (spawned w1) of Some n \<Rightarrow> n | None \<Rightarrow> - 1),
                      exe = ex, userDataDir = dataDir E profile, cdpPort_rc = cdpPort profile,
                      startedAt = now w1, proc = spawned w1\<rparr>,
                 emit (ConsoleLog (''Browser started ('' @ kindName (kind ex)
                         @ '') on port '' @ showInt (cdpPort profile) @ '' (pid ''
                         @ showInt (case procPid E (spawned w1) of Some n \<Rightarrow> n | None \<Rightarrow> - 1)
                         @ '')'')) w5)
              else (Inl (CdpStartFailed (cdpPort profile) (name profile)),
                    kill E (spawned w1) SIGKILL w5))))"
  using assms
  by (simp add: launchClawdChrome_def Let_def isChromeReachable_eq spawnedWorld_def dataDir_def
      versionUrl_def spawn_def mkdirSync_def emit_def
      split: option.splits spawn_outcome.splits)

lemma launch_unfold:
  assumes "cdpIsLoopback profile"
    and "resolveBrowserExecutable E resolved w = (Inr (Some ex), w1)"
    and "mkdirError E (dataDir E profile) = None"
    and "spawnResult E (path ex) (now w1) = Started"
  shows "launchClawdChrome E resolved profile w =
     (let w3 = spawnedWorld E resolved profile ex w1;
          w4 = waitForCdp E (cdpUrl profile) (now w1 + 15000) w3;
          w5 = probed E (cdpUrl profile) 500 w4 in
      if reachable E (cdpUrl profile) 500 (now w4) then
        (Inr \<lparr>pid = (case procPid E (spawned w1) of Some n \<Rightarrow> n | None \<Rightarrow> - 1), exe = ex,
              userDataDir = dataDir E profile, cdpPort_rc = cdpPort profile,
              startedAt = now w1, proc = spawned w1\<rparr>,
         emit (ConsoleLog (''Browser started ('' @ kindName (kind ex)
                 @ '') on port '' @ showInt (cdpPort profile) @ '' (pid ''
                 @ showInt (case procPid E (spawned w1) of Some n \<Rightarrow> n | None \<Rightarrow> - 1)
                 @ '')'')) w5)
      else (Inl (CdpStartFailed (cdpPort profile) (name profile)),
            kill E (spawned w1) SIGKILL w5))"
  using assms launch_resolved [of profile E resolved w ex w1]
  by simp

lemma kill_fields [simp]:
  "trace (kill E h sig w) = trace w @ [Kill h sig]"
  "now (kill E h sig w) = now w"
  "files (kill E h sig w) = files w"
  "spawned (kill E h sig w) = spawned w"
  by (simp_all add: kill_def emit_def Let_def)

lemma handshakes_exists [simp]: "handshakes (snd (exists p w)) = handshakes w"
  by (simp add: handshakes_def exists_def emit_def isWsOpen_def)

lemma handshakes_execText [simp]: "handshakes (snd (execText E c a w)) = handshakes w"
  by (simp add: handshakes_def execText_def emit_def isWsOpen_def Let_def split: option.splits)

lemma handshakes_findFirstExecutable [simp]:
  "handshakes (snd (findFirstExecutable cs w)) = handshakes w"
proof (induction cs arbitrary: w)
  case Nil
  then show ?case by simp
next
  case (Cons c cs)
  have "handshakes (snd (exists (path c) w)) = handshakes w"
    by simp
  then show ?case
    using Cons [of "snd (exists (path c) w)"]
    by (simp add: split_beta)
qed

lemma handshakes_bundleId [simp]:
  "handshakes (snd (detectDefaultBrowserBundleIdMac E w)) = handshakes w"
  by (simp add: detectDefaultBrowserBundleIdMac_def Let_def split_beta
      split: option.splits json.splits)

lemma handshakes_detectMac [simp]:
  "handshakes (snd (detectDefaultChromiumExecutableMac E w)) = handshakes w"
  by (simp add: detectDefaultChromiumExecutableMac_def Let_def split_beta
      split: option.splits)

lemma handshakes_detect [simp]:
  "handshakes (snd (detectDefaultChromiumExecutable E plat w)) = handshakes w"
  by (simp add: detectDefaultChromiumExecutable_def detectDefaultChromiumExecutableLinux_def
      detectDefaultChromiumExecutableWindows_def)




lemma execText_ws_indep [simp]:
  "execText (E\<lparr>wsConnect := g\<rparr>) c a w = execText E c a w"
  by (simp add: execText_def)

lemma bundleId_ws_indep [simp]:
  "detectDefaultBrowserBundleIdMac (E\<lparr>wsConnect := g\<rparr>) w = detectDefaultBrowserBundleIdMac E w"
  by (simp add: detectDefaultBrowserBundleIdMac_def Let_def split_beta
      cong: option.case_cong if_cong)

lemma detectMac_ws_indep [simp]:
  "detectDefaultChromiumExecutableMac (E\<lparr>wsConnect := g\<rparr>) w
     = detectDefaultChromiumExecutableMac E w"
  by (simp add: detectDefaultChromiumExecutableMac_def Let_def split_beta
      cong: option.case_cong if_cong)

lemma detect_ws_indep [simp]:
  "detectDefaultChromiumExecutable (E\<lparr>wsConnect := g\<rparr>) plat w
     = detectDefaultChromiumExecutable E plat w"
  by (simp add: detectDefaultChromiumExecutable_def)

lemma find_ws_indep [simp]:
  "findChromeExecutableMac (E\<lparr>wsConnect := g\<rparr>) w = findChromeExecutableMac E w"
  "findChromeExecutableWindows (E\<lparr>wsConnect := g\<rparr>) w = findChromeExecutableWindows E w"
  by (simp_all add: findChromeExecutableMac_def findChromeExecutableWindows_def
      macCandidates_def windowsCandidates_def)


lemma probe_ws_indep [simp]:
  "reachable (E\<lparr>wsConnect := g\<rparr>) url tm t = reachable E url tm t"
  "probed (E\<lparr>wsConnect := g\<rparr>) url tm w = probed E url tm w"
  by (simp_all add: reachable_def probed_def probeTime_def versionUrl_def)


lemma launch_parts_ws_indep [simp]:
  "spawnArgs (E\<lparr>wsConnect := g\<rparr>) resolved profile dir = spawnArgs E resolved profile dir"
  "dataDir (E\<lparr>wsConnect := g\<rparr>) profile = dataDir E profile"
  "kill (E\<lparr>wsConnect := g\<rparr>) h sig w = kill E h sig w"
  "versionUrl (E\<lparr>wsConnect := g\<rparr>) url = versionUrl E url"
  by (simp_all add: spawnArgs_def dataDir_def kill_def versionUrl_def)

lemma spawnedWorld_ws_indep [simp]:
  "spawnedWorld (E\<lparr>wsConnect := g\<rparr>) resolved profile ex w = spawnedWorld E resolved profile ex w"
  by (simp add: spawnedWorld_def spawn_def mkdirSync_def)


lemma showInt_9222: "showInt 9222 = ''9222''"
  by (simp add: showInt_def showNat.simps)

lemma stopWait_unfold:
  "stopWait E running start timeoutMs w =
     (if now w - start < timeoutMs then
        (if falsyExitCode (procExitCode E (proc running) (now w)) \<and> killed w (proc running)
         then (Broke, w)
         else
          (if \<not> reachable E (cdpUrlForPort (cdpPort_rc running)) 200 (now w)
           then (Returned, probed E (cdpUrlForPort (cdpPort_rc running)) 200 w)
           else stopWait E running start timeoutMs
                  (sleep 100 (probed E (cdpUrlForPort (cdpPort_rc running)) 200 w))))
      else (TimedOut, w))"
  by (simp add: stopWait.simps [of E running start timeoutMs w] isChromeReachable_eq)

section \<open>Executable resolution: the claims\<close>

text \<open>
  C6. On every platform, a config whose \<^verbatim>\<open>executablePath\<close> is set (to a non-empty string, which
  is what the source's truthiness test takes as set) is decided by that path alone: when
  the path does not exist the call raises the error for the missing path, when it exists
  the call returns \<^verbatim>\<open>{ kind: "custom", path }\<close>. Either way the only call made to the outside
  is the one existence test of that path: no default-browser detection and no candidate
  scan takes place.
\<close>

theorem resolve_explicit_path:
  assumes "executablePath resolved = Some p" and "p \<noteq> []"
  shows "resolveBrowserExecutableForPlatform E resolved plat w =
           (if files w p then Inr (Some \<lparr>kind = Custom, path = p\<rparr>)
            else Inl (ExecutablePathNotFound p),
            w\<lparr>trace := trace w @ [FsExists p]\<rparr>)"
  using assms
  by (simp add: resolveBrowserExecutableForPlatform_def truthyString_def exists_def emit_def)

theorem resolve_explicit_path_witness:
  "executablePath ((startConfig None)\<lparr>executablePath := Some ''/opt/missing/chrome''\<rparr>)
     = Some ''/opt/missing/chrome''
   \<and> ''/opt/missing/chrome'' \<noteq> []
   \<and> resolveBrowserExecutableForPlatform linuxBox
        ((startConfig None)\<lparr>executablePath := Some ''/opt/missing/chrome''\<rparr>) Darwin
        (freshWorld [''/usr/bin/chromium''])
      = (Inl (ExecutablePathNotFound ''/opt/missing/chrome''),
         (freshWorld [''/usr/bin/chromium''])\<lparr>trace := [FsExists ''/opt/missing/chrome'']\<rparr>)"
  using resolve_explicit_path [of "(startConfig None)\<lparr>executablePath := Some ''/opt/missing/chrome''\<rparr>"
      "''/opt/missing/chrome''" linuxBox Darwin "freshWorld [''/usr/bin/chromium'']"]
  by (simp add: freshWorld_def)

text \<open>
  C3, as stated, fails: on Linux the default-detection step is itself a scan of three fixed
  paths, so it yields a result whenever one of them exists, and that result can differ from
  what the six-path candidate scan would return. With \<^verbatim>\<open>/usr/bin/chromium\<close> and
  \<^verbatim>\<open>/usr/bin/google-chrome-stable\<close> on disk, detection (and so resolution) yields Chromium,
  while the candidate scan alone would yield \<^verbatim>\<open>/usr/bin/google-chrome-stable\<close>.
\<close>

theorem linux_detection_counterexample:
  "fst (detectDefaultChromiumExecutable linuxBox Linux
          (freshWorld [''/usr/bin/chromium'', ''/usr/bin/google-chrome-stable'']))
     = Some \<lparr>kind = Chromium, path = ''/usr/bin/chromium''\<rparr>
   \<and> fst (resolveBrowserExecutableForPlatform linuxBox (startConfig None) Linux
          (freshWorld [''/usr/bin/chromium'', ''/usr/bin/google-chrome-stable'']))
     = Inr (Some \<lparr>kind = Chromium, path = ''/usr/bin/chromium''\<rparr>)
   \<and> fst (findChromeExecutableLinux
          (freshWorld [''/usr/bin/chromium'', ''/usr/bin/google-chrome-stable'']))
     = Some \<lparr>kind = Chrome, path = ''/usr/bin/google-chrome-stable''\<rparr>"
  by (simp add: detectDefaultChromiumExecutable_def detectDefaultChromiumExecutableLinux_def
      resolveBrowserExecutableForPlatform_def findChromeExecutableLinux_def truthyString_def
      startConfig_def linuxDefaultCandidates_def linuxCandidates_def freshWorld_def
      exists_def emit_def)

text \<open>
  C3, amended. On Linux the default-detection step yields the first of
  \<^verbatim>\<open>/usr/bin/google-chrome\<close>, \<^verbatim>\<open>/usr/bin/chromium\<close>, \<^verbatim>\<open>/usr/bin/chromium-browser\<close> that exists
  (no result only when none does); it reads no default-handler setting. With no
  \<^verbatim>\<open>executablePath\<close> set, resolution on Linux is therefore decided by fixed ordered scans
  alone: it returns the first existing path of those three followed by the six candidate
  paths, and null when none exists.
\<close>

theorem linux_resolution_scans:
  "fst (detectDefaultChromiumExecutable E Linux w)
     = find (\<lambda>c. files w (path c)) linuxDefaultCandidates
   \<and> (truthyString (executablePath resolved) = None \<longrightarrow>
        fst (resolveBrowserExecutableForPlatform E resolved Linux w)
          = Inr (find (\<lambda>c. files w (path c)) (linuxDefaultCandidates @ linuxCandidates)))"
proof (intro conjI impI)
  show "fst (detectDefaultChromiumExecutable E Linux w)
          = find (\<lambda>c. files w (path c)) linuxDefaultCandidates"
    by (rule fst_detect_linux)
next
  assume unset: "truthyString (executablePath resolved) = None"
  obtain detected w1 where d: "detectDefaultChromiumExecutable E Linux w = (detected, w1)"
    by (cases "detectDefaultChromiumExecutable E Linux w")
  have found: "detected = find (\<lambda>c. files w (path c)) linuxDefaultCandidates"
    using fst_detect_linux [of E w] d by simp
  have same: "files w1 = files w"
    using files_detect_linux [of E w] d by simp
  show "fst (resolveBrowserExecutableForPlatform E resolved Linux w)
          = Inr (find (\<lambda>c. files w (path c)) (linuxDefaultCandidates @ linuxCandidates))"
  proof (cases detected)
    case None
    then show ?thesis
      using unset d found same
      by (simp add: resolveBrowserExecutableForPlatform_def findChromeExecutableLinux_def
          fst_findFirstExecutable find_app)
  next
    case (Some b)
    then show ?thesis
      using unset d found
      by (simp add: resolveBrowserExecutableForPlatform_def find_app)
  qed
qed

theorem linux_resolution_scans_witness:
  "truthyString (executablePath (startConfig None)) = None
   \<and> fst (resolveBrowserExecutableForPlatform linuxBox (startConfig None) Linux
            (freshWorld [''/snap/bin/chromium'']))
      = Inr (Some \<lparr>kind = Chromium, path = ''/snap/bin/chromium''\<rparr>)"
  using linux_resolution_scans [of linuxBox "freshWorld [''/snap/bin/chromium'']" "startConfig None"]
  by (simp add: truthyString_def startConfig_def linuxDefaultCandidates_def linuxCandidates_def
      freshWorld_def)

section \<open>Launching: the claims\<close>

text \<open>
  C7. For every config and every profile whose \<^verbatim>\<open>cdpIsLoopback\<close> is false,
  \<^verbatim>\<open>launchClawdChrome\<close> raises the error for a remote profile and leaves the world as it was:
  nothing was resolved (no existence test, no command run), no directory was created and no
  process was spawned.
\<close>

theorem launch_rejects_remote_profile:
  "\<not> cdpIsLoopback profile \<Longrightarrow>
     launchClawdChrome E resolved profile w = (Inl (ProfileIsRemote (name profile)), w)"
  by (simp add: launchClawdChrome_def)

theorem launch_rejects_remote_profile_witness:
  "\<not> cdpIsLoopback (startProfile\<lparr>cdpIsLoopback := False\<rparr>)
   \<and> launchClawdChrome answeringBox (startConfig None) (startProfile\<lparr>cdpIsLoopback := False\<rparr>)
        (freshWorld [''/usr/bin/chromium''])
      = (Inl (ProfileIsRemote ''default''), freshWorld [''/usr/bin/chromium''])"
  using launch_rejects_remote_profile [of "startProfile\<lparr>cdpIsLoopback := False\<rparr>" answeringBox
      "startConfig None" "freshWorld [''/usr/bin/chromium'']"]
  by (simp add: startProfile_def)

text \<open>
  C8. The argument list built for the spawned browser is, in this order: the eleven fixed
  flags, beginning with \<^verbatim>\<open>--remote-debugging-port=<port>\<close> and \<^verbatim>\<open>--user-data-dir=<dir>\<close>; then
  \<^verbatim>\<open>--headless=new\<close> and \<^verbatim>\<open>--disable-gpu\<close> exactly when \<^verbatim>\<open>headless\<close> is set; then \<^verbatim>\<open>--no-sandbox\<close>
  and \<^verbatim>\<open>--disable-setuid-sandbox\<close> exactly when \<^verbatim>\<open>noSandbox\<close> is set; then
  \<^verbatim>\<open>--disable-dev-shm-usage\<close> exactly when the platform is Linux; and last \<^verbatim>\<open>about:blank\<close>.
  For a loopback profile and a config whose executable resolves, once the user-data
  directory has been created the launch calls \<^verbatim>\<open>spawn\<close> exactly once, on the resolved
  executable with that list built for the directory, whatever the spawn then comes to. When
  the spawn starts a child, all that follows are probes of the version endpoint and then
  either the kill of that child or the log line of a successful start; when the spawn fails
  at run time, the one probe during which the Node process ends; when \<^verbatim>\<open>spawn\<close> throws,
  nothing.
\<close>

theorem spawn_arguments_exact:
  "spawnArgs E resolved profile dir =
     [''--remote-debugging-port='' @ showInt (cdpPort profile),
      ''--user-data-dir='' @ dir,
      ''--no-first-run'',
      ''--no-default-browser-check'',
      ''--disable-sync'',
      ''--disable-background-networking'',
      ''--disable-component-update'',
      ''--disable-features=Translate,MediaRouter'',
      ''--disable-session-crashed-bubble'',
      ''--hide-crash-restore-bubble'',
      ''--password-store=basic'']
     @ (if headless resolved then [''--headless=new'', ''--disable-gpu''] else [])
     @ (if noSandbox resolved then [''--no-sandbox'', ''--disable-setuid-sandbox''] else [])
     @ (if platform E = Linux then [''--disable-dev-shm-usage''] else [])
     @ [''about:blank'']
   \<and> (cdpIsLoopback profile \<and> resolveBrowserExecutable E resolved w = (Inr (Some ex), w1)
        \<and> mkdirError E (pathJoin E [cwd E, ''browser-data'', name profile]) = None \<longrightarrow>
        (\<exists>rest. trace (snd (launchClawdChrome E resolved profile w))
                 = trace w1
                   @ [FsMkdir (pathJoin E [cwd E, ''browser-data'', name profile]),
                      Spawn (spawned w1) (path ex)
                        (spawnArgs E resolved profile
                           (pathJoin E [cwd E, ''browser-data'', name profile]))]
                   @ rest
               \<and> (case spawnResult E (path ex) (now w1) of
                     Started \<Rightarrow>
                       (\<exists>n e. rest = replicate n (HttpGet (versionUrl E (cdpUrl profile))) @ [e]
                          \<and> (e = Kill (spawned w1) SIGKILL \<or> (\<exists>msg. e = ConsoleLog msg)))
                   | EmitsError msg \<Rightarrow> rest = [HttpGet (versionUrl E (cdpUrl profile))]
                   | Throws msg \<Rightarrow> rest = [])))"
proof (intro conjI impI)
  show "spawnArgs E resolved profile dir =
     [''--remote-debugging-port='' @ showInt (cdpPort profile),
      ''--user-data-dir='' @ dir,
      ''--no-first-run'',
      ''--no-default-browser-check'',
      ''--disable-sync'',
      ''--disable-background-networking'',
      ''--disable-component-update'',
      ''--disable-features=Translate,MediaRouter'',
      ''--disable-session-crashed-bubble'',
      ''--hide-crash-restore-bubble'',
      ''--password-store=basic'']
     @ (if headless resolved then [''--headless=new'', ''--disable-gpu''] else [])
     @ (if noSandbox resolved then [''--no-sandbox'', ''--disable-setuid-sandbox''] else [])
     @ (if platform E = Linux then [''--disable-dev-shm-usage''] else [])
     @ [''about:blank'']"
    by (simp add: spawnArgs_def Let_def)
next
  assume "cdpIsLoopback profile \<and> resolveBrowserExecutable E resolved w = (Inr (Some ex), w1)
        \<and> mkdirError E (pathJoin E [cwd E, ''browser-data'', name profile]) = None"
  then have loopback: "cdpIsLoopback profile"
    and resolves: "resolveBrowserExecutable E resolved w = (Inr (Some ex), w1)"
    and created: "mkdirError E (dataDir E profile) = None"
    by (simp_all add: dataDir_def)
  let ?url = "cdpUrl profile"
  let ?get = "HttpGet (versionUrl E ?url)"
  let ?w3 = "spawnedWorld E resolved profile ex w1"
  let ?w4 = "waitForCdp E ?url (now w1 + 15000) ?w3"
  let ?shape = "\<lambda>rest. case spawnResult E (path ex) (now w1) of
                     Started \<Rightarrow>
                       (\<exists>n e. rest = replicate n ?get @ [e]
                          \<and> (e = Kill (spawned w1) SIGKILL \<or> (\<exists>msg. e = ConsoleLog msg)))
                   | EmitsError msg \<Rightarrow> rest = [?get]
                   | Throws msg \<Rightarrow> rest = []"
  note run = launch_resolved [OF loopback resolves]
  have "\<exists>rest. trace (snd (launchClawdChrome E resolved profile w)) = trace ?w3 @ rest
          \<and> ?shape rest"
  proof (cases "spawnResult E (path ex) (now w1)")
    case Started
    obtain n where n: "trace ?w4 = trace ?w3 @ replicate n ?get"
      using trace_waitForCdp [of E ?url "now w1 + 15000" ?w3] by blast
    have "\<exists>e. trace (snd (launchClawdChrome E resolved profile w))
              = trace ?w3 @ replicate (Suc n) ?get @ [e]
            \<and> (e = Kill (spawned w1) SIGKILL \<or> (\<exists>msg. e = ConsoleLog msg))"
      using n created Started
      by (simp add: run Let_def emit_def replicate_append_same del: spawnedWorld_fields)
    then obtain e where tr: "trace (snd (launchClawdChrome E resolved profile w))
              = trace ?w3 @ (replicate (Suc n) ?get @ [e])"
      and last: "e = Kill (spawned w1) SIGKILL \<or> (\<exists>msg. e = ConsoleLog msg)"
      by blast
    have "?shape (replicate (Suc n) ?get @ [e])"
      unfolding Started spawn_outcome.case using last by blast
    with tr show ?thesis
      by blast
  next
    case (EmitsError msg)
    then show ?thesis
      using created by (simp add: run emit_def del: spawnedWorld_fields)
  next
    case (Throws msg)
    then show ?thesis
      using created by (simp add: run del: spawnedWorld_fields)
  qed
  then show "\<exists>rest. trace (snd (launchClawdChrome E resolved profile w))
                 = trace w1
                   @ [FsMkdir (pathJoin E [cwd E, ''browser-data'', name profile]),
                      Spawn (spawned w1) (path ex)
                        (spawnArgs E resolved profile
                           (pathJoin E [cwd E, ''browser-data'', name profile]))]
                   @ rest
               \<and> ?shape rest"
    by (simp add: dataDir_def)
qed

theorem spawn_arguments_exact_witness:
  "spawnArgs linuxBox (startConfig (Some \<lparr>opt_headless = Some True\<rparr>)) startProfile
      ''/srv/agent/browser-data/default''
     = [''--remote-debugging-port=9222'',
        ''--user-data-dir=/srv/agent/browser-data/default'',
        ''--no-first-run'',
        ''--no-default-browser-check'',
        ''--disable-sync'',
        ''--disable-background-networking'',
        ''--disable-component-update'',
        ''--disable-features=Translate,MediaRouter'',
        ''--disable-session-crashed-bubble'',
        ''--hide-crash-restore-bubble'',
        ''--password-store=basic'',
        ''--headless=new'',
        ''--disable-gpu'',
        ''--disable-dev-shm-usage'',
        ''about:blank'']
   \<and> cdpIsLoopback startProfile
   \<and> resolveBrowserExecutable linuxBox (startConfig (Some \<lparr>opt_headless = Some True\<rparr>))
         (freshWorld [''/usr/bin/google-chrome''])
       = (Inr (Some \<lparr>kind = Chrome, path = ''/usr/bin/google-chrome''\<rparr>),
          (freshWorld [''/usr/bin/google-chrome''])\<lparr>trace := [FsExists ''/usr/bin/google-chrome'']\<rparr>)
   \<and> mkdirError linuxBox (pathJoin linuxBox [cwd linuxBox, ''browser-data'', name startProfile])
       = None
   \<and> (\<exists>n e. trace (snd (launchClawdChrome linuxBox
                    (startConfig (Some \<lparr>opt_headless = Some True\<rparr>)) startProfile
                    (freshWorld [''/usr/bin/google-chrome''])))
               = [FsExists ''/usr/bin/google-chrome'',
                  FsMkdir ''/srv/agent/browser-data/default'',
                  Spawn 0 ''/usr/bin/google-chrome''
                    (spawnArgs linuxBox (startConfig (Some \<lparr>opt_headless = Some True\<rparr>))
                       startProfile ''/srv/agent/browser-data/default'')]
                 @ replicate n (HttpGet ''http://127.0.0.1:9222/json/version'')
                 @ [e]
             \<and> (e = Kill 0 SIGKILL \<or> (\<exists>msg. e = ConsoleLog msg)))"
proof -
  let ?cfg = "startConfig (Some \<lparr>opt_headless = Some True\<rparr>)"
  let ?W = "freshWorld [''/usr/bin/google-chrome'']"
  let ?W1 = "?W\<lparr>trace := [FsExists ''/usr/bin/google-chrome'']\<rparr>"
  let ?ex = "\<lparr>kind = Chrome, path = ''/usr/bin/google-chrome''\<rparr>"
  have loopback: "cdpIsLoopback startProfile"
    by (simp add: startProfile_def)
  have resolves: "resolveBrowserExecutable linuxBox ?cfg ?W = (Inr (Some ?ex), ?W1)"
    by (simp add: resolveBrowserExecutable_def resolveBrowserExecutableForPlatform_def
        truthyString_def startConfig_def detectDefaultChromiumExecutable_def
        detectDefaultChromiumExecutableLinux_def linuxDefaultCandidates_def exists_def emit_def
        freshWorld_def linuxBox_def)
  have created: "mkdirError linuxBox
      (pathJoin linuxBox [cwd linuxBox, ''browser-data'', name startProfile]) = None"
    by (simp add: linuxBox_def)
  have dir: "pathJoin linuxBox [cwd linuxBox, ''browser-data'', name startProfile]
      = ''/srv/agent/browser-data/default''"
    by (simp add: linuxBox_def startProfile_def joinWith_def)
  have url: "versionUrl linuxBox (cdpUrl startProfile) = ''http://127.0.0.1:9222/json/version''"
    by (simp add: versionUrl_def linuxBox_def startProfile_def)
  have started: "spawnResult linuxBox c t = Started" for c t
    by (simp add: linuxBox_def)
  have facts: "cdpPort startProfile = 9222" "headless ?cfg" "\<not> noSandbox ?cfg"
    "platform linuxBox = Linux" "spawned ?W1 = 0"
    "trace ?W1 = [FsExists ''/usr/bin/google-chrome'']"
    by (simp_all add: startProfile_def startConfig_def linuxBox_def freshWorld_def)
  note inst = spawn_arguments_exact [of linuxBox ?cfg startProfile
      "''/srv/agent/browser-data/default''" ?W ?ex ?W1]
  have args: "spawnArgs linuxBox ?cfg startProfile ''/srv/agent/browser-data/default''
     = [''--remote-debugging-port=9222'',
        ''--user-data-dir=/srv/agent/browser-data/default'',
        ''--no-first-run'',
        ''--no-default-browser-check'',
        ''--disable-sync'',
        ''--disable-background-networking'',
        ''--disable-component-update'',
        ''--disable-features=Translate,MediaRouter'',
        ''--disable-session-crashed-bubble'',
        ''--hide-crash-restore-bubble'',
        ''--password-store=basic'',
        ''--headless=new'',
        ''--disable-gpu'',
        ''--disable-dev-shm-usage'',
        ''about:blank'']"
    using inst [THEN conjunct1] by (simp add: facts showInt_9222)
  have run: "\<exists>n e. trace (snd (launchClawdChrome linuxBox ?cfg startProfile ?W))
               = [FsExists ''/usr/bin/google-chrome'',
                  FsMkdir ''/srv/agent/browser-data/default'',
                  Spawn 0 ''/usr/bin/google-chrome''
                    (spawnArgs linuxBox ?cfg startProfile ''/srv/agent/browser-data/default'')]
                 @ replicate n (HttpGet ''http://127.0.0.1:9222/json/version'')
                 @ [e]
             \<and> (e = Kill 0 SIGKILL \<or> (\<exists>msg. e = ConsoleLog msg))"
    using inst [THEN conjunct2, THEN mp, OF conjI [OF loopback conjI [OF resolves created]]]
    by (auto simp add: dir url facts started)
  show ?thesis
    using args loopback resolves created run by blast
qed

text \<open>
  C1, as stated, fails for the launches that never get a browser process going. With a
  loopback profile and an endpoint that never answers:
  \<^item> a config whose \<^verbatim>\<open>executablePath\<close> does not exist makes \<^verbatim>\<open>launchClawdChrome\<close> raise the
    error for the missing path, and a host with no browser installed makes it raise the
    error for no supported browser; nothing is spawned;
  \<^item> a config whose \<^verbatim>\<open>executablePath\<close> exists but cannot be executed resolves (resolution
    tests existence only), the spawn fails at run time, and the Node process ends on the
    child's \<^verbatim>\<open>'error'\<close> event during the first probe;
  \<^item> on a host where the user-data directory cannot be created the launch throws the error
    of \<^verbatim>\<open>mkdirSync\<close>; nothing is spawned.

  In none of these runs is a signal sent, and none ends in the connectivity error.
\<close>

theorem launch_without_executable_counterexample:
  "cdpIsLoopback startProfile
   \<and> (\<forall>t. \<not> reachable linuxBox (cdpUrl startProfile) 500 t)
   \<and> launchClawdChrome linuxBox
        ((startConfig None)\<lparr>executablePath := Some ''/opt/missing/chrome''\<rparr>) startProfile
        (freshWorld [''/usr/bin/chromium''])
      = (Inl (ExecutablePathNotFound ''/opt/missing/chrome''),
         (freshWorld [''/usr/bin/chromium''])\<lparr>trace := [FsExists ''/opt/missing/chrome'']\<rparr>)
   \<and> fst (launchClawdChrome linuxBox (startConfig None) startProfile (freshWorld []))
      = Inl NoSupportedBrowser
   \<and> trace (snd (launchClawdChrome linuxBox (startConfig None) startProfile (freshWorld [])))
      = map FsExists
          [''/usr/bin/google-chrome'', ''/usr/bin/chromium'', ''/usr/bin/chromium-browser'',
           ''/usr/bin/google-chrome'', ''/usr/bin/google-chrome-stable'', ''/usr/bin/chrome'',
           ''/usr/bin/chromium'', ''/usr/bin/chromium-browser'', ''/snap/bin/chromium'']
   \<and> (\<forall>t. \<not> reachable noExecBox (cdpUrl startProfile) 500 t)
   \<and> fst (launchClawdChrome noExecBox
            ((startConfig None)\<lparr>executablePath := Some ''/srv/agent/notes.txt''\<rparr>) startProfile
            (freshWorld [''/srv/agent/notes.txt'']))
      = Inl (UncaughtChildError ''spawn EACCES'')
   \<and> trace (snd (launchClawdChrome noExecBox
            ((startConfig None)\<lparr>executablePath := Some ''/srv/agent/notes.txt''\<rparr>) startProfile
            (freshWorld [''/srv/agent/notes.txt''])))
      = [FsExists ''/srv/agent/notes.txt'',
         FsMkdir ''/srv/agent/browser-data/default'',
         Spawn 0 ''/srv/agent/notes.txt''
           (spawnArgs noExecBox
              ((startConfig None)\<lparr>executablePath := Some ''/srv/agent/notes.txt''\<rparr>)
              startProfile ''/srv/agent/browser-data/default''),
         HttpGet ''http://127.0.0.1:9222/json/version'']
   \<and> (\<forall>t. \<not> reachable readOnlyBox (cdpUrl startProfile) 500 t)
   \<and> fst (launchClawdChrome readOnlyBox (startConfig None) startProfile
            (freshWorld [''/usr/bin/chromium'']))
      = Inl (FsError ''EACCES: permission denied, mkdir'')
   \<and> trace (snd (launchClawdChrome readOnlyBox (startConfig None) startProfile
            (freshWorld [''/usr/bin/chromium''])))
      = [FsExists ''/usr/bin/google-chrome'', FsExists ''/usr/bin/chromium'',
         FsMkdir ''/srv/agent/browser-data/default'']"
proof -
  have missing: "launchClawdChrome linuxBox
        ((startConfig None)\<lparr>executablePath := Some ''/opt/missing/chrome''\<rparr>) startProfile
        (freshWorld [''/usr/bin/chromium''])
      = (Inl (ExecutablePathNotFound ''/opt/missing/chrome''),
         (freshWorld [''/usr/bin/chromium''])\<lparr>trace := [FsExists ''/opt/missing/chrome'']\<rparr>)"
    by (simp add: launchClawdChrome_def resolveBrowserExecutable_def
        resolveBrowserExecutableForPlatform_def truthyString_def startConfig_def startProfile_def
        exists_def emit_def freshWorld_def)
  have none: "launchClawdChrome linuxBox (startConfig None) startProfile (freshWorld [])
      = (Inl NoSupportedBrowser,
         (freshWorld [])\<lparr>trace := map FsExists
          [''/usr/bin/google-chrome'', ''/usr/bin/chromium'', ''/usr/bin/chromium-browser'',
           ''/usr/bin/google-chrome'', ''/usr/bin/google-chrome-stable'', ''/usr/bin/chrome'',
           ''/usr/bin/chromium'', ''/usr/bin/chromium-browser'', ''/snap/bin/chromium'']\<rparr>)"
    by (simp add: launchClawdChrome_def resolveBrowserExecutable_def
        resolveBrowserExecutableForPlatform_def truthyString_def startConfig_def startProfile_def
        detectDefaultChromiumExecutable_def detectDefaultChromiumExecutableLinux_def
        findChromeExecutableLinux_def linuxDefaultCandidates_def linuxCandidates_def
        exists_def emit_def freshWorld_def linuxBox_def)
  have noexec: "launchClawdChrome noExecBox
            ((startConfig None)\<lparr>executablePath := Some ''/srv/agent/notes.txt''\<rparr>) startProfile
            (freshWorld [''/srv/agent/notes.txt''])
      = (Inl (UncaughtChildError ''spawn EACCES''),
         (freshWorld [''/srv/agent/notes.txt''])
           \<lparr>files := (files (freshWorld [''/srv/agent/notes.txt'']))
                (''/srv/agent/browser-data/default'' := True),
            killed := (killed (freshWorld [''/srv/agent/notes.txt'']))(0 := False),
            spawned := 1,
            trace := [FsExists ''/srv/agent/notes.txt'',
              FsMkdir ''/srv/agent/browser-data/default'',
              Spawn 0 ''/srv/agent/notes.txt''
                (spawnArgs noExecBox
                   ((startConfig None)\<lparr>executablePath := Some ''/srv/agent/notes.txt''\<rparr>)
                   startProfile ''/srv/agent/browser-data/default''),
              HttpGet ''http://127.0.0.1:9222/json/version'']\<rparr>)"
    by (simp add: launchClawdChrome_def resolveBrowserExecutable_def
        resolveBrowserExecutableForPlatform_def truthyString_def startConfig_def startProfile_def
        exists_def emit_def mkdirSync_def spawn_def joinWith_def freshWorld_def
        noExecBox_def linuxBox_def Let_def)
  have readonly: "launchClawdChrome readOnlyBox (startConfig None) startProfile
            (freshWorld [''/usr/bin/chromium''])
      = (Inl (FsError ''EACCES: permission denied, mkdir''),
         (freshWorld [''/usr/bin/chromium''])
           \<lparr>trace := [FsExists ''/usr/bin/google-chrome'', FsExists ''/usr/bin/chromium'',
              FsMkdir ''/srv/agent/browser-data/default'']\<rparr>)"
    by (simp add: launchClawdChrome_def resolveBrowserExecutable_def
        resolveBrowserExecutableForPlatform_def truthyString_def startConfig_def startProfile_def
        detectDefaultChromiumExecutable_def detectDefaultChromiumExecutableLinux_def
        linuxDefaultCandidates_def exists_def emit_def mkdirSync_def joinWith_def freshWorld_def
        readOnlyBox_def linuxBox_def Let_def)
  have silent: "\<not> reachable linuxBox (cdpUrl startProfile) 500 t"
    "\<not> reachable noExecBox (cdpUrl startProfile) 500 t"
    "\<not> reachable readOnlyBox (cdpUrl startProfile) 500 t" for t
    by (simp_all add: reachable_def noExecBox_def readOnlyBox_def linuxBox_def)
  have loopback: "cdpIsLoopback startProfile"
    by (simp add: startProfile_def)
  show ?thesis
    using loopback silent by (simp add: missing none noexec readonly)
qed

text \<open>
  C1, amended: for every loopback profile and every config for which an executable
  resolves, the user-data directory can be created and the spawn starts a child process.
  If the endpoint never answers a probe, the launch raises the connectivity error that names
  the port and the profile; its calls after resolution are the creation of the directory,
  the spawn, a number of probes of the version endpoint, and last the SIGKILL of the spawned
  child; and it ends at least 15000 ms and less than 16200 ms after the spawn (a probe lasts
  at most its 500 ms time-out, a pause 200 ms). Whatever the endpoint does, the launch
  returns a \<^verbatim>\<open>RunningChrome\<close> only when a probe issued during the launch found the endpoint
  reachable, and otherwise raises the connectivity error with the SIGKILL of the spawned
  child as its last call.
\<close>

theorem launch_unreachable_kills:
  assumes loopback: "cdpIsLoopback profile"
    and resolves: "resolveBrowserExecutable E resolved w = (Inr (Some ex), w1)"
    and created: "mkdirError E (dataDir E profile) = None"
    and started: "spawnResult E (path ex) (now w1) = Started"
  shows "(case launchClawdChrome E resolved profile w of
            (Inr rc, w') \<Rightarrow>
              (\<exists>t. now w1 \<le> t \<and> t \<le> now w' \<and> reachable E (cdpUrl profile) 500 t)
          | (Inl e, w') \<Rightarrow>
              e = CdpStartFailed (cdpPort profile) (name profile)
              \<and> last (trace w') = Kill (spawned w1) SIGKILL)
         \<and> ((\<forall>t. \<not> reachable E (cdpUrl profile) 500 t) \<longrightarrow>
              (\<exists>n w'. launchClawdChrome E resolved profile w
                         = (Inl (CdpStartFailed (cdpPort profile) (name profile)), w')
                 \<and> trace w' = trace w1
                      @ [FsMkdir (dataDir E profile),
                         Spawn (spawned w1) (path ex)
                           (spawnArgs E resolved profile (dataDir E profile))]
                      @ replicate n (HttpGet (versionUrl E (cdpUrl profile)))
                      @ [Kill (spawned w1) SIGKILL]
                 \<and> now w1 + 15000 \<le> now w' \<and> now w' < now w1 + 16200))"
proof -
  let ?url = "cdpUrl profile"
  let ?w3 = "spawnedWorld E resolved profile ex w1"
  let ?w4 = "waitForCdp E ?url (now w1 + 15000) ?w3"
  let ?w5 = "probed E ?url 500 ?w4"
  note unfold = launch_unfold [OF loopback resolves created started]
  have mono: "now w1 \<le> now ?w4"
    using now_waitForCdp_mono [of ?w3 E ?url "now w1 + 15000"] by simp
  have general: "(case launchClawdChrome E resolved profile w of
            (Inr rc, w') \<Rightarrow>
              (\<exists>t. now w1 \<le> t \<and> t \<le> now w' \<and> reachable E (cdpUrl profile) 500 t)
          | (Inl e, w') \<Rightarrow>
              e = CdpStartFailed (cdpPort profile) (name profile)
              \<and> last (trace w') = Kill (spawned w1) SIGKILL)"
  proof (cases "reachable E ?url 500 (now ?w4)")
    case True
    then have "launchClawdChrome E resolved profile w =
        (Inr \<lparr>pid = (case procPid E (spawned w1) of Some n \<Rightarrow> n | None \<Rightarrow> - 1), exe = ex,
              userDataDir = dataDir E profile, cdpPort_rc = cdpPort profile,
              startedAt = now w1, proc = spawned w1\<rparr>,
         emit (ConsoleLog (''Browser started ('' @ kindName (kind ex)
                 @ '') on port '' @ showInt (cdpPort profile) @ '' (pid ''
                 @ showInt (case procPid E (spawned w1) of Some n \<Rightarrow> n | None \<Rightarrow> - 1)
                 @ '')'')) ?w5)"
      by (simp add: unfold Let_def)
    moreover have "now w1 \<le> now ?w4 \<and> now ?w4 \<le> now ?w5 \<and> reachable E ?url 500 (now ?w4)"
      using mono True by simp
    ultimately show ?thesis
      by (auto simp add: emit_def)
  next
    case False
    then have "launchClawdChrome E resolved profile w =
        (Inl (CdpStartFailed (cdpPort profile) (name profile)), kill E (spawned w1) SIGKILL ?w5)"
      by (simp add: unfold Let_def)
    then show ?thesis
      by simp
  qed
  have specific: "\<exists>n w'. launchClawdChrome E resolved profile w
                         = (Inl (CdpStartFailed (cdpPort profile) (name profile)), w')
                 \<and> trace w' = trace w1
                      @ [FsMkdir (dataDir E profile),
                         Spawn (spawned w1) (path ex)
                           (spawnArgs E resolved profile (dataDir E profile))]
                      @ replicate n (HttpGet (versionUrl E (cdpUrl profile)))
                      @ [Kill (spawned w1) SIGKILL]
                 \<and> now w1 + 15000 \<le> now w' \<and> now w' < now w1 + 16200"
    if never: "\<forall>t. \<not> reachable E ?url 500 t"
  proof -
    have result: "launchClawdChrome E resolved profile w =
        (Inl (CdpStartFailed (cdpPort profile) (name profile)), kill E (spawned w1) SIGKILL ?w5)"
      using never by (simp add: unfold Let_def)
    obtain n where "trace ?w4 = trace ?w3 @ replicate n (HttpGet (versionUrl E ?url))"
      using trace_waitForCdp [of E ?url "now w1 + 15000" ?w3] by blast
    then have tr: "trace (kill E (spawned w1) SIGKILL ?w5) = trace w1
                      @ [FsMkdir (dataDir E profile),
                         Spawn (spawned w1) (path ex)
                           (spawnArgs E resolved profile (dataDir E profile))]
                      @ replicate (Suc n) (HttpGet (versionUrl E ?url))
                      @ [Kill (spawned w1) SIGKILL]"
      by (simp add: replicate_append_same)
    have lower: "now w1 + 15000 \<le> now ?w4"
      using now_waitForCdp_lower [OF never, of "now w1 + 15000" ?w3] .
    have upper: "now ?w4 \<le> now w1 + 15000 + 699"
      using now_waitForCdp_upper [of ?w3 "now w1 + 15000" E ?url] by simp
    have "probeTime E ?url 500 (now ?w4) \<le> 500"
      by (rule probeTime_le)
    then have tm: "now w1 + 15000 \<le> now (kill E (spawned w1) SIGKILL ?w5)
        \<and> now (kill E (spawned w1) SIGKILL ?w5) < now w1 + 16200"
      using lower upper by simp
    show ?thesis
      using result tr tm by blast
  qed
  show ?thesis
    using general specific by blast
qed

theorem launch_unreachable_kills_witness:
  "cdpIsLoopback startProfile
   \<and> resolveBrowserExecutable linuxBox (startConfig None) (freshWorld [''/usr/bin/chromium''])
       = (Inr (Some \<lparr>kind = Chromium, path = ''/usr/bin/chromium''\<rparr>),
          (freshWorld [''/usr/bin/chromium''])
            \<lparr>trace := [FsExists ''/usr/bin/google-chrome'', FsExists ''/usr/bin/chromium'']\<rparr>)
   \<and> mkdirError linuxBox (dataDir linuxBox startProfile) = None
   \<and> spawnResult linuxBox ''/usr/bin/chromium'' 0 = Started
   \<and> (\<forall>t. \<not> reachable linuxBox (cdpUrl startProfile) 500 t)
   \<and> (\<exists>n w'. launchClawdChrome linuxBox (startConfig None) startProfile
                   (freshWorld [''/usr/bin/chromium''])
                 = (Inl (CdpStartFailed 9222 ''default''), w')
          \<and> trace w' = [FsExists ''/usr/bin/google-chrome'', FsExists ''/usr/bin/chromium'',
                          FsMkdir ''/srv/agent/browser-data/default'',
                          Spawn 0 ''/usr/bin/chromium''
                            (spawnArgs linuxBox (startConfig None) startProfile
                               ''/srv/agent/browser-data/default'')]
                        @ replicate n (HttpGet ''http://127.0.0.1:9222/json/version'')
                        @ [Kill 0 SIGKILL]
          \<and> 15000 \<le> now w' \<and> now w' < 16200)"
proof -
  let ?W = "freshWorld [''/usr/bin/chromium'']"
  let ?W1 = "?W\<lparr>trace := [FsExists ''/usr/bin/google-chrome'', FsExists ''/usr/bin/chromium'']\<rparr>"
  let ?ex = "\<lparr>kind = Chromium, path = ''/usr/bin/chromium''\<rparr>"
  have loopback: "cdpIsLoopback startProfile"
    by (simp add: startProfile_def)
  have resolves: "resolveBrowserExecutable linuxBox (startConfig None) ?W = (Inr (Some ?ex), ?W1)"
    by (simp add: resolveBrowserExecutable_def resolveBrowserExecutableForPlatform_def
        truthyString_def startConfig_def detectDefaultChromiumExecutable_def
        detectDefaultChromiumExecutableLinux_def linuxDefaultCandidates_def exists_def emit_def
        freshWorld_def linuxBox_def)
  have created: "mkdirError linuxBox (dataDir linuxBox startProfile) = None"
    by (simp add: linuxBox_def)
  have started: "spawnResult linuxBox (path ?ex) (now ?W1) = Started"
    by (simp add: linuxBox_def)
  have started': "spawnResult linuxBox ''/usr/bin/chromium'' 0 = Started"
    by (simp add: linuxBox_def)
  have never: "\<forall>t. \<not> reachable linuxBox (cdpUrl startProfile) 500 t"
    by (simp add: reachable_def linuxBox_def)
  have dir: "dataDir linuxBox startProfile = ''/srv/agent/browser-data/default''"
    by (simp add: dataDir_def linuxBox_def startProfile_def joinWith_def)
  have url: "versionUrl linuxBox (cdpUrl startProfile) = ''http://127.0.0.1:9222/json/version''"
    by (simp add: versionUrl_def linuxBox_def startProfile_def)
  have facts: "cdpPort startProfile = 9222" "name startProfile = ''default''"
    "now ?W1 = 0" "spawned ?W1 = 0"
    "trace ?W1 = [FsExists ''/usr/bin/google-chrome'', FsExists ''/usr/bin/chromium'']"
    by (simp_all add: startProfile_def freshWorld_def)
  have run: "\<exists>n w'. launchClawdChrome linuxBox (startConfig None) startProfile ?W
                 = (Inl (CdpStartFailed 9222 ''default''), w')
          \<and> trace w' = [FsExists ''/usr/bin/google-chrome'', FsExists ''/usr/bin/chromium'',
                          FsMkdir ''/srv/agent/browser-data/default'',
                          Spawn 0 ''/usr/bin/chromium''
                            (spawnArgs linuxBox (startConfig None) startProfile
                               ''/srv/agent/browser-data/default'')]
                        @ replicate n (HttpGet ''http://127.0.0.1:9222/json/version'')
                        @ [Kill 0 SIGKILL]
          \<and> 15000 \<le> now w' \<and> now w' < 16200"
    using launch_unreachable_kills [OF loopback resolves created started,
        THEN conjunct2, THEN mp, OF never]
    by (simp add: dir url facts)
  show ?thesis
    using loopback resolves created started' never run by blast
qed






section \<open>Stopping and the registry: the claims\<close>

text \<open>
  C2 says that after SIGTERM the code polls for up to 2.5 seconds and sends SIGKILL only
  when that time has passed without the process having exited or the endpoint having gone
  silent. The code does not: when the SIGTERM was delivered (which sets \<^verbatim>\<open>proc.killed\<close>)
  and the exit code is still null or zero, the test \<^verbatim>\<open>!proc.exitCode && proc.killed\<close> is true on
  the first pass of the loop, the loop is left by \<^verbatim>\<open>break\<close>, and SIGKILL follows at once:
  no probe is made and no time passes. This is so for every positive time-out, and in
  particular for a live session whose endpoint still answers.
\<close>

theorem stop_kills_at_once:
  assumes "\<not> killed w (proc running)"
    and "killSucceeds E (proc running) SIGTERM (now w)"
    and "falsyExitCode (procExitCode E (proc running) (now w))"
    and "0 < timeoutMs"
  shows "stopClawdChrome E running timeoutMs w
           = kill E (proc running) SIGKILL (kill E (proc running) SIGTERM w)
         \<and> trace (stopClawdChrome E running timeoutMs w)
           = trace w @ [Kill (proc running) SIGTERM, Kill (proc running) SIGKILL]
         \<and> now (stopClawdChrome E running timeoutMs w) = now w"
proof -
  let ?w1 = "kill E (proc running) SIGTERM w"
  have k: "killed ?w1 (proc running)" and t: "now ?w1 = now w"
    using assms by (simp_all add: kill_def emit_def)
  have "stopWait E running (now ?w1) timeoutMs ?w1 = (Broke, ?w1)"
    using assms k t by (subst stopWait_unfold) simp
  then have "stopClawdChrome E running timeoutMs w = kill E (proc running) SIGKILL ?w1"
    using assms by (simp add: stopClawdChrome_def Let_def)
  then show ?thesis
    by simp
qed

theorem stop_kills_at_once_witness:
  "\<not> killed liveWorld (proc liveSession)
   \<and> killSucceeds answeringBox (proc liveSession) SIGTERM 60000
   \<and> falsyExitCode (procExitCode answeringBox (proc liveSession) 60000)
   \<and> (0::nat) < 2500
   \<and> (\<forall>t. reachable answeringBox (cdpUrlForPort (cdpPort_rc liveSession)) 200 t)
   \<and> trace (stopClawdChrome answeringBox liveSession 2500
              liveWorld)
      = [Kill 0 SIGTERM, Kill 0 SIGKILL]
   \<and> now (stopClawdChrome answeringBox liveSession 2500
              liveWorld)
      = 60000"
proof -
  let ?W = liveWorld
  have h1: "\<not> killed ?W (proc liveSession)"
    by (simp add: liveWorld_def)
  have h2: "killSucceeds answeringBox (proc liveSession) SIGTERM (now ?W)"
    by (simp add: answeringBox_def linuxBox_def)
  have h3: "falsyExitCode (procExitCode answeringBox (proc liveSession) (now ?W))"
    by (simp add: answeringBox_def linuxBox_def falsyExitCode_def)
  have h4: "(0::nat) < 2500"
    by simp
  have h5: "reachable answeringBox (cdpUrlForPort (cdpPort_rc liveSession)) 200 t" for t
    by (simp add: reachable_def answeringBox_def linuxBox_def)
  have facts: "now ?W = 60000" "trace ?W = []" "proc liveSession = 0"
    by (simp_all add: liveWorld_def liveSession_def)
  show ?thesis
    using stop_kills_at_once [OF h1 h2 h3 h4] h1 h2 h3 h5
    by (simp add: facts)
qed

text \<open>
  C9. \<^verbatim>\<open>browserStop\<close> with no tracked session returns without error and changes nothing. With
  a tracked session it runs \<^verbatim>\<open>stopClawdChrome\<close> (which always returns: its loop is a total
  function, and every \<^verbatim>\<open>kill\<close> is guarded), returns without error and tracks no session
  afterwards, whatever the process and the endpoint do. After either, \<^verbatim>\<open>getCdpUrl\<close> raises
  the error whose message is \<^verbatim>\<open>Browser not started\<close>.
\<close>

theorem browserStop_clears_session:
  "browserStop E None w = (Inr (), None, w)
   \<and> browserStop E (Some rc) w = (Inr (), None, stopClawdChrome E rc 2500 w)
   \<and> getCdpUrl (fst (snd (browserStop E activeBrowser w))) = Inl BrowserNotStarted
   \<and> errorMessage BrowserNotStarted = ''Browser not started''"
  by (simp add: browserStop_def getCdpUrl_def errorMessage_def split: option.splits)


text \<open>
  C5. When a session is tracked and its endpoint \<^verbatim>\<open>http://127.0.0.1:<port>\<close> answers the probe,
  \<^verbatim>\<open>browserStart\<close> returns without error and still tracks the same session (the same record:
  pid, handle and all); its only call to the outside is that one probe, so no process is
  spawned, no signal is sent and no file is touched.
\<close>

theorem browserStart_reuses_reachable_session:
  assumes "reachable E (cdpUrlForPort (cdpPort_rc rc)) 500 (now w)"
  shows "fst (browserStart E opts (Some rc) w) = Inr ()
         \<and> fst (snd (browserStart E opts (Some rc) w)) = Some rc
         \<and> trace (snd (snd (browserStart E opts (Some rc) w)))
             = trace w @ [HttpGet (versionUrl E (cdpUrlForPort (cdpPort_rc rc)))]
         \<and> spawned (snd (snd (browserStart E opts (Some rc) w))) = spawned w
         \<and> killed (snd (snd (browserStart E opts (Some rc) w))) = killed w
         \<and> files (snd (snd (browserStart E opts (Some rc) w))) = files w"
  using assms
  by (simp add: browserStart_def isChromeReachable_eq cdpUrlForPort_def)

theorem browserStart_reuses_reachable_session_witness:
  "reachable answeringBox (cdpUrlForPort (cdpPort_rc liveSession)) 500
      (now liveWorld)
   \<and> fst (browserStart answeringBox None (Some liveSession)
            liveWorld) = Inr ()
   \<and> fst (snd (browserStart answeringBox None (Some liveSession)
            liveWorld))
      = Some liveSession
   \<and> trace (snd (snd (browserStart answeringBox None (Some liveSession)
            liveWorld)))
      = [HttpGet ''http://127.0.0.1:9222/json/version'']
   \<and> spawned (snd (snd (browserStart answeringBox None (Some liveSession)
            liveWorld))) = 1"
proof -
  let ?W = liveWorld
  have h: "reachable answeringBox (cdpUrlForPort (cdpPort_rc liveSession)) 500 (now ?W)"
    by (simp add: reachable_def answeringBox_def linuxBox_def)
  have url: "versionUrl answeringBox (cdpUrlForPort (cdpPort_rc liveSession))
      = ''http://127.0.0.1:9222/json/version''"
    by (simp add: versionUrl_def answeringBox_def linuxBox_def cdpUrlForPort_def liveSession_def
        showInt_9222)
  have facts: "trace ?W = []" "spawned ?W = 1"
    by (simp_all add: liveWorld_def)
  show ?thesis
    using browserStart_reuses_reachable_session [OF h, of None] h
    by (simp add: url facts)
qed

text \<open>
  C10. While the tracked session is reachable, the options of the call have no effect:
  \<^verbatim>\<open>browserStart\<close> with any options does exactly what it does with none, and the tracked
  session stays the one that was tracked.
\<close>

theorem browserStart_reuse_ignores_options:
  assumes "reachable E (cdpUrlForPort (cdpPort_rc rc)) 500 (now w)"
  shows "browserStart E opts (Some rc) w = browserStart E None (Some rc) w
         \<and> fst (snd (browserStart E opts (Some rc) w)) = Some rc"
  using assms
  by (simp add: browserStart_def isChromeReachable_eq cdpUrlForPort_def)

theorem browserStart_reuse_ignores_options_witness:
  "reachable answeringBox (cdpUrlForPort (cdpPort_rc liveSession)) 500
      (now liveWorld)
   \<and> browserStart answeringBox (Some \<lparr>opt_headless = Some True\<rparr>) (Some liveSession)
        liveWorld
      = browserStart answeringBox None (Some liveSession)
          liveWorld
   \<and> fst (snd (browserStart answeringBox (Some \<lparr>opt_headless = Some True\<rparr>) (Some liveSession)
        liveWorld))
      = Some liveSession"
proof -
  let ?W = liveWorld
  have h: "reachable answeringBox (cdpUrlForPort (cdpPort_rc liveSession)) 500 (now ?W)"
    by (simp add: reachable_def answeringBox_def linuxBox_def)
  show ?thesis
    using browserStart_reuse_ignores_options [OF h, of "Some \<lparr>opt_headless = Some True\<rparr>"] h
    by blast
qed


end
